theory Spec2Isabelle
  imports Main "HOL-Library.Sublist"
begin

section \<open>The Go generator for GraphQL documents (go.go)\<close>

text \<open>
  A shallow embedding of \<^verbatim>\<open>go.go\<close>. The generator is a byte buffer together with
  the current indentation; every method of the Go \<^verbatim>\<open>Generator\<close> takes the
  generator state and returns the updated one. Byte strings are \<^typ>\<open>string\<close>.
  The embedded mutex is left out: the model is sequential.
\<close>

subsection \<open>The relevant part of the AST (package ast)\<close>

text \<open>
  \<^verbatim>\<open>ast.Ident\<close> is a struct holding the name. \<^verbatim>\<open>ast.List\<close> and
  \<^verbatim>\<open>ast.NonNull\<close> are structs whose only field \<^verbatim>\<open>Type\<close> is a oneof; the
  model identifies each struct with its oneof. A non-null type wraps an identifier or a list,
  never another non-null type: the oneof of \<^verbatim>\<open>ast.NonNull\<close> has no such case.
\<close>

datatype Ident = Ident (Name: string)

datatype ast_List = List_Ident Ident | List_List ast_List | List_NonNull ast_NonNull
  and ast_NonNull = NonNull_Ident Ident | NonNull_List ast_List

text \<open>The \<^verbatim>\<open>interface{}\<close> argument of \<^verbatim>\<open>printType\<close>, as its callers fill it.\<close>

datatype any_Type = T_nil | T_Ident Ident | T_List ast_List | T_NonNull ast_NonNull

text \<open>
  A doc comment is read only through \<^verbatim>\<open>Text()\<close>, so a \<^verbatim>\<open>DocGroup\<close> is
  modelled by the text that method returns. A nil pointer is \<open>None\<close>.
\<close>

datatype DocGroup = DocGroup (Text: string)

text \<open>Literals. The kind of a basic literal is never read by the generator.\<close>

datatype BasicLit = BasicLit (Value: string)

datatype CompositeLit =
    CompositeLit_BasicLit BasicLit
  | CompositeLit_ListLit ListLit
  | CompositeLit_ObjLit ObjLit
  and ListLit = ListLit_BasicList "BasicLit list" | ListLit_CompositeList "CompositeLit list"
  and ObjLit = ObjLit (Fields: "ObjLit_Pair list")
  and ObjLit_Pair = ObjLit_Pair (Key: Ident) (Val: CompositeLit)

text \<open>The \<^verbatim>\<open>interface{}\<close> argument of \<^verbatim>\<open>printVal\<close>.\<close>

datatype any_Val =
    V_nil
  | V_BasicLit BasicLit
  | V_ListLit ListLit
  | V_ObjLit ObjLit
  | V_CompositeLit CompositeLit

text \<open>Fields, arguments and input fields. A oneof that is not set is \<open>None\<close>.\<close>

datatype Field_Type = Field_Ident Ident | Field_List ast_List | Field_NonNull ast_NonNull

datatype InputValue_Type =
  InputValue_Ident Ident | InputValue_List ast_List | InputValue_NonNull ast_NonNull

datatype InputValue_Default = InputValue_BasicLit BasicLit | InputValue_CompositeLit CompositeLit

record InputValue =
  iv_Doc :: "DocGroup option"
  iv_Name :: Ident
  iv_Type :: "InputValue_Type option"
  iv_Default :: "InputValue_Default option"

text \<open>\<open>f_Args\<close> is the list of the \<^verbatim>\<open>*ast.InputValueList\<close>, \<open>None\<close> when the pointer is nil.\<close>

record Field =
  f_Doc :: "DocGroup option"
  f_Name :: Ident
  f_Args :: "InputValue list option"
  f_Type :: "Field_Type option"

text \<open>
  Declarations. A directive location is read only through \<^verbatim>\<open>Loc.String()\<close>, the
  name of the enum value, which is what \<open>Loc\<close> holds here.
\<close>

datatype DirectiveLocation = DirectiveLocation (Loc: string)

record ObjectType =
  Interfaces :: "Ident list"
  obj_Fields :: "Field list"

record InterfaceType =
  inter_Fields :: "Field list"

record UnionType =
  Members :: "Ident list"

record EnumType =
  Values :: "Field list"

record InputType =
  input_Fields :: "InputValue list"

record DirectiveType =
  Locs :: "DirectiveLocation list"
  dir_Args :: "InputValue list option"

record SchemaType =
  RootOps :: "Field list"

datatype TypeSpec_Type =
    TypeSpec_Schema SchemaType
  | TypeSpec_Scalar
  | TypeSpec_Object ObjectType
  | TypeSpec_Interface InterfaceType
  | TypeSpec_Union UnionType
  | TypeSpec_Enum EnumType
  | TypeSpec_Input InputType
  | TypeSpec_Directive DirectiveType

record TypeSpec =
  ts_Name :: Ident
  ts_Type :: TypeSpec_Type

text \<open>A declaration is a type specification or a type extension; the generator skips extensions.\<close>

datatype TypeDecl_Spec = TypeDecl_TypeSpec TypeSpec | TypeDecl_TypeExtSpec

record TypeDecl =
  td_Doc :: "DocGroup option"
  td_Spec :: TypeDecl_Spec

text \<open>Directives applied to the document, with their arguments.\<close>

datatype Arg_Value = Arg_BasicLit BasicLit | Arg_CompositeLit CompositeLit

record Arg =
  arg_Name :: Ident
  arg_Value :: Arg_Value

record DirectiveLit =
  dl_Name :: string
  dl_Args :: "Arg list option"

record Document =
  doc_Name :: string
  doc_Directives :: "DirectiveLit list"
  doc_Schema :: "TypeDecl option"
  doc_Types :: "TypeDecl list"

subsection \<open>The generator state and its write primitives\<close>

record Generator =
  Buffer :: string
  indent :: string

abbreviation TAB :: char where
  "TAB \<equiv> CHR 0x09"

abbreviation NL :: char where
  "NL \<equiv> CHR 0x0A"

abbreviation DQ :: char where
  "DQ \<equiv> CHR 0x22"

definition Write :: "string \<Rightarrow> Generator \<Rightarrow> Generator" where
  "Write p g = g\<lparr>Buffer := Buffer g @ p\<rparr>"

definition WriteString :: "string \<Rightarrow> Generator \<Rightarrow> Generator" where
  "WriteString s g = g\<lparr>Buffer := Buffer g @ s\<rparr>"

definition WriteByte :: "char \<Rightarrow> Generator \<Rightarrow> Generator" where
  "WriteByte c g = g\<lparr>Buffer := Buffer g @ [c]\<rparr>"

text \<open>Every rune the generator writes is ASCII, so its UTF-8 encoding is the one byte.\<close>

definition WriteRune :: "char \<Rightarrow> Generator \<Rightarrow> Generator" where
  "WriteRune r g = g\<lparr>Buffer := Buffer g @ [r]\<rparr>"

text \<open>
  \<^verbatim>\<open>Reset\<close> empties the buffer and truncates the indentation to length zero
  (allocating it first when it is nil).
\<close>

definition Reset :: "Generator \<Rightarrow> Generator" where
  "Reset g = g\<lparr>Buffer := [], indent := []\<rparr>"

definition In :: "Generator \<Rightarrow> Generator" where
  "In g = g\<lparr>indent := indent g @ [TAB]\<rparr>"

definition Out :: "Generator \<Rightarrow> Generator" where
  "Out g = (if length (indent g) > 0 then g\<lparr>indent := take (length (indent g) - 1) (indent g)\<rparr> else g)"

text \<open>
  The arguments of \<^verbatim>\<open>P\<close> are \<^verbatim>\<open>interface{}\<close> values. Its type switch handles
  byte slices, bytes, runes, strings, booleans, ints and float64s; a value of any other
  dynamic type, such as an \<^verbatim>\<open>*ast.Ident\<close>, matches no case and writes nothing.
  No call site passes an int or a float64, and the model has no case for them.
\<close>

datatype any = A_bytes string | A_byte char | A_rune char | A_string string | A_bool bool | A_Ident Ident

fun P_arg :: "any \<Rightarrow> Generator \<Rightarrow> Generator" where
  "P_arg (A_bytes v) g = Write v g"
| "P_arg (A_byte v) g = WriteByte v g"
| "P_arg (A_rune v) g = WriteRune v g"
| "P_arg (A_string v) g = WriteString v g"
| "P_arg (A_bool v) g = Write (if v then ''true'' else ''false'') g"
| "P_arg (A_Ident v) g = g"

definition P :: "any list \<Rightarrow> Generator \<Rightarrow> Generator" where
  "P str g = WriteByte NL (foldl (\<lambda>g s. P_arg s g) (Write (indent g) g) str)"

definition typeSuffix :: string where
  "typeSuffix = ''Type''"

subsection \<open>printType\<close>

definition builtin_name :: "string \<Rightarrow> string" where
  "builtin_name name =
     (if name = ''Int'' then ''graphql.Int''
      else if name = ''Float'' then ''graphql.Float''
      else if name = ''String'' then ''graphql.String''
      else if name = ''Boolean'' then ''graphql.Boolean''
      else if name = ''ID'' then ''graphql.ID''
      else name @ ''Type'')"

text \<open>The nesting depth of a type, the measure of the recursion of \<^verbatim>\<open>printType\<close>.\<close>

fun depth_List :: "ast_List \<Rightarrow> nat"
  and depth_NonNull :: "ast_NonNull \<Rightarrow> nat" where
  "depth_List (List_Ident i) = 1"
| "depth_List (List_List l) = Suc (depth_List l)"
| "depth_List (List_NonNull n) = Suc (depth_NonNull n)"
| "depth_NonNull (NonNull_Ident i) = 1"
| "depth_NonNull (NonNull_List l) = Suc (depth_List l)"

fun depth_any :: "any_Type \<Rightarrow> nat" where
  "depth_any T_nil = 0"
| "depth_any (T_Ident i) = 0"
| "depth_any (T_List l) = depth_List l"
| "depth_any (T_NonNull n) = depth_NonNull n"

function printType :: "any_Type \<Rightarrow> Generator \<Rightarrow> Generator" where
  "printType T_nil g = g"
| "printType (T_Ident v) g = WriteString (builtin_name (Name v)) g"
| "printType (T_List v) g =
     (let g = WriteString ''graphql.NewList('' g;
          typ = (case v of
                   List_Ident w \<Rightarrow> T_Ident w
                 | List_List w \<Rightarrow> T_List w
                 | List_NonNull w \<Rightarrow> T_NonNull w);
          g = printType typ g
      in WriteByte (CHR '')'') g)"
| "printType (T_NonNull v) g =
     (let g = WriteString ''graphql.NewNonNull('' g;
          typ = (case v of
                   NonNull_Ident w \<Rightarrow> T_Ident w
                 | NonNull_List w \<Rightarrow> T_List w);
          g = printType typ g
      in WriteByte (CHR '')'') g)"
  by pat_completeness auto
termination
  by (relation "measure (\<lambda>(t, g). depth_any t)") (auto split: ast_List.splits ast_NonNull.splits)

subsection \<open>printVal\<close>

text \<open>
  The two loops of \<^verbatim>\<open>printVal\<close> are the functions \<open>printVal_vals\<close> and
  \<open>printVal_fields\<close>; they carry the index \<open>i\<close> of the element and the last index.
\<close>

fun weight_CompositeLit :: "CompositeLit \<Rightarrow> nat"
  and weight_ListLit :: "ListLit \<Rightarrow> nat"
  and weight_ObjLit :: "ObjLit \<Rightarrow> nat"
  and weight_Pair :: "ObjLit_Pair \<Rightarrow> nat" where
  "weight_CompositeLit (CompositeLit_BasicLit w) = 1"
| "weight_CompositeLit (CompositeLit_ListLit w) = Suc (weight_ListLit w)"
| "weight_CompositeLit (CompositeLit_ObjLit w) = Suc (weight_ObjLit w)"
| "weight_ListLit (ListLit_BasicList ws) = Suc (sum_list (map (\<lambda>w. Suc 0) ws))"
| "weight_ListLit (ListLit_CompositeList ws) = Suc (sum_list (map (\<lambda>w. Suc (weight_CompositeLit w)) ws))"
| "weight_ObjLit (ObjLit ps) = Suc (sum_list (map (\<lambda>p. Suc (weight_Pair p)) ps))"
| "weight_Pair (ObjLit_Pair k v) = weight_CompositeLit v"

fun weight_Val :: "any_Val \<Rightarrow> nat" where
  "weight_Val V_nil = 0"
| "weight_Val (V_BasicLit v) = 0"
| "weight_Val (V_ListLit v) = weight_ListLit v"
| "weight_Val (V_ObjLit v) = weight_ObjLit v"
| "weight_Val (V_CompositeLit v) = weight_CompositeLit v"

function printVal :: "any_Val \<Rightarrow> Generator \<Rightarrow> Generator"
  and printVal_vals :: "int \<Rightarrow> int \<Rightarrow> any_Val list \<Rightarrow> Generator \<Rightarrow> Generator"
  and printVal_fields :: "int \<Rightarrow> int \<Rightarrow> ObjLit_Pair list \<Rightarrow> Generator \<Rightarrow> Generator" where
  "printVal V_nil g = g"
| "printVal (V_BasicLit v) g = WriteString (Value v) g"
| "printVal (V_ListLit v) g =
     (let g = WriteString ''[]interface{}{'' g;
          vals = (case v of
                    ListLit_BasicList w \<Rightarrow> map V_BasicLit w
                  | ListLit_CompositeList w \<Rightarrow> map V_CompositeLit w);
          vLen = int (length vals) - 1;
          g = printVal_vals vLen 0 vals g
      in WriteByte (CHR ''}'') g)"
| "printVal (V_ObjLit v) g =
     (let g = WriteByte (CHR ''{'') g;
          g = WriteByte (CHR '' '') g;
          pLen = int (length (Fields v)) - 1;
          g = printVal_fields pLen 0 (Fields v) g
      in WriteByte (CHR ''}'') g)"
| "printVal (V_CompositeLit v) g =
     (case v of
        CompositeLit_BasicLit w \<Rightarrow> printVal (V_BasicLit w) g
      | CompositeLit_ListLit w \<Rightarrow> printVal (V_ListLit w) g
      | CompositeLit_ObjLit w \<Rightarrow> printVal (V_ObjLit w) g)"
| "printVal_vals vLen i [] g = g"
| "printVal_vals vLen i (iv # vals) g =
     (let g = printVal iv g;
          g = (if i \<noteq> vLen then WriteByte (CHR '' '') (WriteByte (CHR '','') g) else g)
      in printVal_vals vLen (i + 1) vals g)"
| "printVal_fields pLen i [] g = g"
| "printVal_fields pLen i (p # ps) g =
     (let g = WriteString (Name (Key p)) g;
          g = WriteString '': '' g;
          g = printVal (V_CompositeLit (Val p)) g;
          g = (if i \<noteq> pLen then WriteByte (CHR '','') g else g);
          g = WriteByte (CHR '' '') g
      in printVal_fields pLen (i + 1) ps g)"
  by pat_completeness auto
termination
proof (relation "measure (\<lambda>x. case x of
          Inl (v, g) \<Rightarrow> weight_Val v
        | Inr (Inl (n, i, vals, g)) \<Rightarrow> sum_list (map (\<lambda>v. Suc (weight_Val v)) vals)
        | Inr (Inr (n, i, ps, g)) \<Rightarrow> sum_list (map (\<lambda>p. Suc (weight_Pair p)) ps))",
       goal_cases)
  case 1
  show ?case by simp
next
  case 2
  then show ?case by (auto simp: comp_def split: ListLit.splits)
next
  case (3 v g)
  then show ?case by (cases v) auto
next
  case 4
  then show ?case by simp
next
  case 5
  then show ?case by simp
next
  case 6
  then show ?case by simp
next
  case 7
  then show ?case by simp
next
  case 8
  then show ?case by simp
next
  case (9 pLen i p ps g)
  then show ?case by (cases p) auto
next
  case 10
  then show ?case by simp
qed

subsection \<open>The declaration emitters\<close>

text \<open>
  The switches that unwrap a field type, an argument type and a default value into the
  \<^verbatim>\<open>interface{}\<close> handed to \<^verbatim>\<open>printType\<close> and \<^verbatim>\<open>printVal\<close>.
\<close>

fun fieldType :: "Field_Type option \<Rightarrow> any_Type" where
  "fieldType None = T_nil"
| "fieldType (Some (Field_Ident v)) = T_Ident v"
| "fieldType (Some (Field_List v)) = T_List v"
| "fieldType (Some (Field_NonNull v)) = T_NonNull v"

fun argType :: "InputValue_Type option \<Rightarrow> any_Type" where
  "argType None = T_nil"
| "argType (Some (InputValue_Ident v)) = T_Ident v"
| "argType (Some (InputValue_List v)) = T_List v"
| "argType (Some (InputValue_NonNull v)) = T_NonNull v"

fun defType :: "InputValue_Default \<Rightarrow> any_Val" where
  "defType (InputValue_BasicLit v) = V_BasicLit v"
| "defType (InputValue_CompositeLit v) = V_CompositeLit v"

definition printDescr :: "DocGroup \<Rightarrow> Generator \<Rightarrow> Generator" where
  "printDescr doc g =
     (let text = Text doc in
      if length text > 0 then
        (let g = Write (indent g) g;
             g = WriteString ''Description: \"'' g;
             g = WriteString (take (length text - 1) text) g;
             g = WriteByte DQ g
         in WriteByte (CHR '','') g)
      else g)"

text \<open>
  The statement \<^verbatim>\<open>if doc != nil && descr { g.printDescr(doc); g.WriteByte('\n') }\<close>,
  which six of the emitters repeat.
\<close>

definition printDescr_if :: "DocGroup option \<Rightarrow> bool \<Rightarrow> Generator \<Rightarrow> Generator" where
  "printDescr_if doc descr g =
     (case doc of
        None \<Rightarrow> g
      | Some d \<Rightarrow> if descr then WriteByte NL (printDescr d g) else g)"

definition generateScalar :: "string \<Rightarrow> bool \<Rightarrow> DocGroup option \<Rightarrow> Generator \<Rightarrow> Generator" where
  "generateScalar name descr doc g =
     (let g = P [A_string ''NewScalar(graphql.ScalarConfig{''] g;
          g = In g;
          g = P [A_string ''Name: \"'', A_string name, A_string ''\",''] g;
          g = (case doc of
                 None \<Rightarrow> g
               | Some d \<Rightarrow>
                   if descr then
                     (let text = Text d in
                      if length text > 0 then
                        P [A_string ''Description: \"'', A_string (take (length text - 1) text),
                           A_string ''\",''] g
                      else g)
                   else g);
          g = P [A_string ''Serialize: func(value interface{}) interface{} { return nil }, // TODO''] g;
          g = Out g
      in P [A_string ''})''] g)"

text \<open>The argument loop of \<^verbatim>\<open>generateObject\<close>.\<close>

fun generateObject_args :: "bool \<Rightarrow> InputValue list \<Rightarrow> Generator \<Rightarrow> Generator" where
  "generateObject_args descr [] g = g"
| "generateObject_args descr (a # as) g =
     (let g = P [A_rune DQ, A_string (Name (iv_Name a)), A_rune DQ,
                 A_string '': &graphql.ArgumentConfig{''] g;
          g = In g;
          g = Write (indent g) g;
          g = WriteString ''Type: '' g;
          g = printType (argType (iv_Type a)) g;
          g = WriteByte (CHR '','') g;
          g = WriteByte NL g;
          g = (case iv_Default a of
                 None \<Rightarrow> g
               | Some d \<Rightarrow>
                   (let g = Write (indent g) g;
                        g = WriteString ''DefaultValue: '' g;
                        g = printVal (defType d) g;
                        g = WriteByte (CHR '','') g
                    in WriteByte NL g));
          g = printDescr_if (iv_Doc a) descr g;
          g = Out g;
          g = P [A_string ''},''] g
      in generateObject_args descr as g)"

text \<open>The field loop of \<^verbatim>\<open>generateObject\<close>.\<close>

fun generateObject_fields :: "bool \<Rightarrow> Field list \<Rightarrow> Generator \<Rightarrow> Generator" where
  "generateObject_fields descr [] g = g"
| "generateObject_fields descr (f # fs) g =
     (let g = P [A_rune DQ, A_string (Name (f_Name f)), A_rune DQ, A_string '': &graphql.Field{''] g;
          g = In g;
          g = Write (indent g) g;
          g = WriteString ''Type: '' g;
          g = printType (fieldType (f_Type f)) g;
          g = WriteByte (CHR '','') g;
          g = WriteByte NL g;
          g = (case f_Args f of
                 None \<Rightarrow> g
               | Some args \<Rightarrow>
                   (let g = P [A_string ''Args: graphql.FieldConfigArgument{''] g;
                        g = In g;
                        g = generateObject_args descr args g;
                        g = Out g
                    in P [A_string ''},''] g));
          g = P [A_string ''Resolve: func(p graphql.ResolveParams) (interface{}, error) { return nil, nil }, // TODO''] g;
          g = printDescr_if (f_Doc f) descr g;
          g = Out g;
          g = P [A_string ''},''] g
      in generateObject_fields descr fs g)"

fun generateObject_interfaces :: "Ident list \<Rightarrow> Generator \<Rightarrow> Generator" where
  "generateObject_interfaces [] g = g"
| "generateObject_interfaces (intf # intfs) g =
     generateObject_interfaces intfs (P [A_string (Name intf), A_bytes typeSuffix, A_string '',''] g)"

definition generateObject :: "string \<Rightarrow> bool \<Rightarrow> DocGroup option \<Rightarrow> ObjectType \<Rightarrow> Generator \<Rightarrow> Generator" where
  "generateObject name descr doc obj g =
     (let g = P [A_string ''NewObject(graphql.ObjectConfig{''] g;
          g = In g;
          g = P [A_string ''Name: \"'', A_string name, A_string ''\",''] g;
          interLen = length (Interfaces obj);
          g = (if interLen = 1 then
                 (let g = Write (indent g) g;
                      g = WriteString ''Interfaces: []*graphql.Interface{ '' g;
                      g = WriteString (Name (Interfaces obj ! 0)) g;
                      g = Write typeSuffix g;
                      g = WriteByte (CHR '' '') g;
                      g = WriteByte (CHR ''}'') g;
                      g = WriteByte (CHR '','') g
                  in WriteByte NL g)
               else g);
          g = (if interLen > 1 then
                 (let g = Write (indent g) g;
                      g = WriteString ''Interfaces: []*graphql.Interface{'' g;
                      g = WriteByte NL g;
                      g = In g;
                      g = generateObject_interfaces (Interfaces obj) g;
                      g = Out g
                  in P [A_string ''},''] g)
               else g);
          g = P [A_string ''Fields: graphql.Fields{''] g;
          g = In g;
          g = generateObject_fields descr (obj_Fields obj) g;
          g = Out g;
          g = P [A_string ''},''] g;
          g = printDescr_if doc descr g;
          g = Out g
      in P [A_string ''})''] g)"

text \<open>The argument loop of \<^verbatim>\<open>generateInterface\<close>.\<close>

fun generateInterface_args :: "bool \<Rightarrow> InputValue list \<Rightarrow> Generator \<Rightarrow> Generator" where
  "generateInterface_args descr [] g = g"
| "generateInterface_args descr (a # as) g =
     (let g = P [A_rune DQ, A_string (Name (iv_Name a)), A_rune DQ,
                 A_string '': &graphql.ArgumentConfig{''] g;
          g = In g;
          g = Write (indent g) g;
          g = WriteString ''Type: '' g;
          g = printType (argType (iv_Type a)) g;
          g = (case iv_Default a of
                 None \<Rightarrow> g
               | Some d \<Rightarrow>
                   (let g = WriteByte NL g;
                        g = Write (indent g) g;
                        g = WriteString ''DefaultValue: '' g;
                        g = printVal (defType d) g;
                        g = WriteByte (CHR '','') g
                    in WriteByte NL g));
          g = printDescr_if (iv_Doc a) descr g;
          g = Out g;
          g = P [A_string ''},''] g
      in generateInterface_args descr as g)"

text \<open>The field loop of \<^verbatim>\<open>generateInterface\<close>.\<close>

fun generateInterface_fields :: "bool \<Rightarrow> Field list \<Rightarrow> Generator \<Rightarrow> Generator" where
  "generateInterface_fields descr [] g = g"
| "generateInterface_fields descr (f # fs) g =
     (let g = P [A_rune DQ, A_string (Name (f_Name f)), A_string ''\": &graphql.Field{''] g;
          g = In g;
          g = Write (indent g) g;
          g = WriteString ''Type: '' g;
          g = printType (fieldType (f_Type f)) g;
          g = WriteByte (CHR '','') g;
          g = WriteByte NL g;
          g = (case f_Args f of
                 None \<Rightarrow> g
               | Some args \<Rightarrow>
                   (let g = P [A_string ''Args: graphql.FieldConfigArgument{''] g;
                        g = In g;
                        g = generateInterface_args descr args g;
                        g = Out g
                    in P [A_string ''},''] g));
          g = printDescr_if (f_Doc f) descr g;
          g = Out g;
          g = P [A_string ''},''] g
      in generateInterface_fields descr fs g)"

definition generateInterface :: "string \<Rightarrow> bool \<Rightarrow> DocGroup option \<Rightarrow> InterfaceType \<Rightarrow> Generator \<Rightarrow> Generator" where
  "generateInterface name descr doc intf g =
     (let g = P [A_string ''NewInterface(graphql.InterfaceConfig{''] g;
          g = In g;
          g = P [A_string ''Name: \"'', A_string name, A_string ''\",''] g;
          g = P [A_string ''Fields: graphql.Fields{''] g;
          g = In g;
          g = generateInterface_fields descr (inter_Fields intf) g;
          g = Out g;
          g = P [A_string ''},''] g;
          g = printDescr_if doc descr g;
          g = Out g
      in P [A_string ''})''] g)"

fun generateUnion_members :: "Ident list \<Rightarrow> Generator \<Rightarrow> Generator" where
  "generateUnion_members [] g = g"
| "generateUnion_members (mem # mems) g =
     generateUnion_members mems (P [A_string (Name mem), A_bytes typeSuffix, A_rune (CHR '','')] g)"

text \<open>
  With one member, \<^verbatim>\<open>P\<close> is handed \<^verbatim>\<open>union.Members[0]\<close>, the
  \<^verbatim>\<open>*ast.Ident\<close> itself and not its name.
\<close>

definition generateUnion :: "string \<Rightarrow> bool \<Rightarrow> DocGroup option \<Rightarrow> UnionType \<Rightarrow> Generator \<Rightarrow> Generator" where
  "generateUnion name descr doc un g =
     (let g = P [A_string ''NewUnion(graphql.UnionConfig{''] g;
          g = In g;
          g = P [A_string ''Name: \"'', A_string name, A_string ''\",''] g;
          memsLen = length (Members un);
          g = (if memsLen = 1 then
                 P [A_string ''Types: []*graphql.Object{ '', A_Ident (Members un ! 0),
                    A_bytes typeSuffix, A_string '' },''] g
               else g);
          g = (if memsLen > 1 then
                 (let g = P [A_string ''Types: []*graphql.Object{''] g;
                      g = In g;
                      g = generateUnion_members (Members un) g;
                      g = Out g
                  in P [A_string ''},''] g)
               else g);
          g = P [A_string ''ResolveType: func(p graphql.ResolveParams) *graphql.Object { return nil }, // TODO''] g;
          g = printDescr_if doc descr g;
          g = Out g
      in P [A_string ''})''] g)"

fun generateEnum_values :: "bool \<Rightarrow> Field list \<Rightarrow> Generator \<Rightarrow> Generator" where
  "generateEnum_values descr [] g = g"
| "generateEnum_values descr (v # vs) g =
     (let g = P [A_rune DQ, A_string (Name (f_Name v)), A_rune DQ,
                 A_string '': &graphql.EnumValueConfig{''] g;
          g = In g;
          g = P [A_string ''Value: \"'', A_string (Name (f_Name v)), A_string ''\",''] g;
          g = printDescr_if (f_Doc v) descr g;
          g = Out g;
          g = P [A_string ''},''] g
      in generateEnum_values descr vs g)"

definition generateEnum :: "string \<Rightarrow> bool \<Rightarrow> DocGroup option \<Rightarrow> EnumType \<Rightarrow> Generator \<Rightarrow> Generator" where
  "generateEnum name descr doc enum g =
     (let g = P [A_string ''NewEnum(graphql.EnumConfig{''] g;
          g = In g;
          g = P [A_string ''Name: \"'', A_string name, A_string ''\",''] g;
          g = printDescr_if doc descr g;
          g = P [A_string ''Values: graphql.EnumValueConfigMap{''] g;
          g = In g;
          g = generateEnum_values descr (Values enum) g;
          g = Out g;
          g = P [A_string ''},''] g;
          g = Out g
      in P [A_string ''})''] g)"

text \<open>The field loop of \<^verbatim>\<open>generateInput\<close>; the indentation is decreased before the description.\<close>

fun generateInput_fields :: "bool \<Rightarrow> InputValue list \<Rightarrow> Generator \<Rightarrow> Generator" where
  "generateInput_fields descr [] g = g"
| "generateInput_fields descr (f # fs) g =
     (let g = P [A_rune DQ, A_string (Name (iv_Name f)), A_rune DQ,
                 A_string '': &graphql.InputObjectFieldConfig{''] g;
          g = In g;
          g = Write (indent g) g;
          g = WriteString ''Type: '' g;
          g = printType (argType (iv_Type f)) g;
          g = WriteByte (CHR '','') g;
          g = WriteByte NL g;
          g = (case iv_Default f of
                 None \<Rightarrow> g
               | Some d \<Rightarrow>
                   (let g = Write (indent g) g;
                        g = WriteString ''DefaultValue: '' g;
                        g = printVal (defType d) g;
                        g = WriteByte (CHR '','') g
                    in WriteByte NL g));
          g = Out g;
          g = printDescr_if (iv_Doc f) descr g;
          g = P [A_string ''},''] g
      in generateInput_fields descr fs g)"

definition generateInput :: "string \<Rightarrow> bool \<Rightarrow> DocGroup option \<Rightarrow> InputType \<Rightarrow> Generator \<Rightarrow> Generator" where
  "generateInput name descr doc input g =
     (let g = P [A_string ''NewInputObject(graphql.InputObjectConfig{''] g;
          g = In g;
          g = P [A_string ''Name: \"'', A_string name, A_string ''\",''] g;
          g = P [A_string ''Fields: graphql.InputObjectFieldConfigMap{''] g;
          g = In g;
          g = generateInput_fields descr (input_Fields input) g;
          g = Out g;
          g = P [A_string ''},''] g;
          g = printDescr_if doc descr g;
          g = Out g
      in P [A_string ''})''] g)"

fun generateDirective_locs :: "DirectiveLocation list \<Rightarrow> Generator \<Rightarrow> Generator" where
  "generateDirective_locs [] g = g"
| "generateDirective_locs (loc # locs) g =
     generateDirective_locs locs (P [A_rune DQ, A_string (Loc loc), A_string ''\",''] g)"

fun generateDirective_args :: "bool \<Rightarrow> InputValue list \<Rightarrow> Generator \<Rightarrow> Generator" where
  "generateDirective_args descr [] g = g"
| "generateDirective_args descr (a # as) g =
     (let g = P [A_rune DQ, A_string (Name (iv_Name a)), A_rune DQ,
                 A_string '': &graphql.ArgumentConfig{''] g;
          g = In g;
          g = Write (indent g) g;
          g = WriteString ''Type: '' g;
          g = printType (argType (iv_Type a)) g;
          g = WriteByte (CHR '','') g;
          g = WriteByte NL g;
          g = (case iv_Default a of
                 None \<Rightarrow> g
               | Some d \<Rightarrow>
                   (let g = Write (indent g) g;
                        g = WriteString ''DefaultValue: '' g;
                        g = printVal (defType d) g;
                        g = WriteByte (CHR '','') g
                    in WriteByte NL g));
          g = printDescr_if (iv_Doc a) descr g;
          g = Out g;
          g = P [A_string ''},''] g
      in generateDirective_args descr as g)"

definition generateDirective :: "string \<Rightarrow> bool \<Rightarrow> DocGroup option \<Rightarrow> DirectiveType \<Rightarrow> Generator \<Rightarrow> Generator" where
  "generateDirective name descr doc directive g =
     (let g = P [A_string ''NewDirective(graphql.DirectiveConfig{''] g;
          g = In g;
          g = P [A_string ''Name: \"'', A_string name, A_string ''\",''] g;
          g = (case doc of
                 None \<Rightarrow> g
               | Some d \<Rightarrow>
                   if descr then
                     (let text = Text d in
                      if length text > 0 then
                        P [A_string ''Description: \"'', A_string (take (length text - 1) text),
                           A_string ''\",''] g
                      else g)
                   else g);
          locsLen = length (Locs directive);
          g = (if locsLen = 1 then
                 P [A_string ''Locations: []string{ '', A_string (Loc (Locs directive ! 0)),
                    A_string '' }''] g
               else g);
          g = (if locsLen > 1 then
                 (let g = P [A_string ''Locations: []string{''] g;
                      g = In g;
                      g = generateDirective_locs (Locs directive) g;
                      g = Out g
                  in P [A_string ''},''] g)
               else g);
          g = (case dir_Args directive of
                 None \<Rightarrow> g
               | Some args \<Rightarrow>
                   (let g = P [A_string ''Args: graphql.FieldConfigArgument{''] g;
                        g = In g;
                        g = generateDirective_args descr args g;
                        g = Out g
                    in P [A_string ''},''] g));
          g = Out g
      in P [A_string ''})''] g)"

subsection \<open>Option resolution\<close>

text \<open>
  A Go call returns or panics. \<open>Panic\<close> stands for every run-time panic (an index or
  slice bound out of range, a failed type assertion, a nil dereference).
\<close>

datatype 'a go = Panic | Return 'a

text \<open>
  Errors. \<^verbatim>\<open>strconv.ParseBool\<close> reports a syntax error that names its input; the
  errors of \<^verbatim>\<open>json.Unmarshal\<close> and of the output sink come from outside and are
  kept by their message.
\<close>

datatype error = ParseBool_error string | External_error string | ErrShortWrite

record Options =
  Package :: string
  Descriptions :: bool

text \<open>\<^verbatim>\<open>strconv.ParseBool\<close> of the Go standard library.\<close>

definition ParseBool :: "string \<Rightarrow> error + bool" where
  "ParseBool str =
     (if str \<in> set [''1'', ''t'', ''T'', ''true'', ''TRUE'', ''True''] then Inr True
      else if str \<in> set [''0'', ''f'', ''F'', ''false'', ''FALSE'', ''False''] then Inr False
      else Inl (ParseBool_error str))"

text \<open>The loop over the fields of the directive's object literal.\<close>

fun getOptions_fields :: "ObjLit_Pair list \<Rightarrow> Options \<Rightarrow> (error + Options) go" where
  "getOptions_fields [] gOpts = Return (Inr gOpts)"
| "getOptions_fields (arg # args) gOpts =
     (if Name (Key arg) = ''package'' then
        (case Val arg of
           CompositeLit_BasicLit b \<Rightarrow> getOptions_fields args (gOpts\<lparr>Package := Value b\<rparr>)
         | _ \<Rightarrow> Panic)
      else if Name (Key arg) = ''descriptions'' then
        (case Val arg of
           CompositeLit_BasicLit b \<Rightarrow>
             (case ParseBool (Value b) of
                Inl err \<Rightarrow> Return (Inl err)
              | Inr b \<Rightarrow> getOptions_fields args (gOpts\<lparr>Descriptions := b\<rparr>))
         | _ \<Rightarrow> Panic)
      else getOptions_fields args gOpts)"

text \<open>
  The loop over the directives of the document: directives not named \<^verbatim>\<open>go\<close> are
  skipped, a \<^verbatim>\<open>go\<close> directive without arguments ends the loop, and the first
  argument of any other must be an object literal.
\<close>

fun getOptions_directives :: "DirectiveLit list \<Rightarrow> Options \<Rightarrow> (error + Options) go" where
  "getOptions_directives [] gOpts = Return (Inr gOpts)"
| "getOptions_directives (d # ds) gOpts =
     (if dl_Name d \<noteq> ''go'' then getOptions_directives ds gOpts
      else
        (case dl_Args d of
           None \<Rightarrow> Return (Inr gOpts)
         | Some [] \<Rightarrow> Panic
         | Some (a # _) \<Rightarrow>
             (case arg_Value a of
                Arg_CompositeLit (CompositeLit_ObjLit docOpts) \<Rightarrow>
                  (case getOptions_fields (Fields docOpts) gOpts of
                     Return (Inr gOpts) \<Rightarrow> getOptions_directives ds gOpts
                   | r \<Rightarrow> r)
              | _ \<Rightarrow> Panic)))"

text \<open>
  \<^verbatim>\<open>json.Unmarshal\<close> is a parameter: \<open>Unmarshal opts gOpts\<close> is the error, or the
  options with the fields present in the blob overwritten. After it the package name is
  indexed at 0 and, when a quote stands there, sliced from 1 to its length minus 1;
  both panic out of range.
\<close>

definition getOptions ::
    "(string \<Rightarrow> Options \<Rightarrow> error + Options) \<Rightarrow> Document \<Rightarrow> string \<Rightarrow> (error + Options) go" where
  "getOptions Unmarshal doc opts =
     (let gOpts = \<lparr>Package = ''main'', Descriptions = False\<rparr> in
      case getOptions_directives (doc_Directives doc) gOpts of
        Panic \<Rightarrow> Panic
      | Return (Inl err) \<Rightarrow> Return (Inl err)
      | Return (Inr gOpts) \<Rightarrow>
          (case (if length opts > 0 then Unmarshal opts gOpts else Inr gOpts) of
             Inl err \<Rightarrow> Return (Inl err)
           | Inr gOpts \<Rightarrow>
               (if length (Package gOpts) = 0 then Panic
                else if Package gOpts ! 0 = DQ then
                  (if 1 > length (Package gOpts) - 1 then Panic
                   else Return (Inr (gOpts\<lparr>Package :=
                          take (length (Package gOpts) - 1 - 1) (drop 1 (Package gOpts))\<rparr>)))
                else Return (Inr gOpts))))"

subsection \<open>Generate\<close>

definition writeHeader :: "string \<Rightarrow> Generator \<Rightarrow> Generator" where
  "writeHeader packageName g =
     (let g = Write ''package '' g;
          g = Write packageName g;
          g = Write [NL, NL] g;
          g = Write ''import \"github.com/graphql-go/graphql\"'' g
      in Write [NL, NL] g)"

text \<open>
  The loop over \<^verbatim>\<open>doc.Types\<close>, with the index \<open>i\<close> of the declaration. Type
  extensions and the schema declaration are skipped by \<^verbatim>\<open>continue\<close>, which also
  skips the blank line at the end of the loop body. Each emitter is handed the declaration
  that the type switch has just matched.
\<close>

fun Generate_types :: "bool \<Rightarrow> int \<Rightarrow> int \<Rightarrow> TypeDecl list \<Rightarrow> Generator \<Rightarrow> Generator" where
  "Generate_types descr totalTypes i [] g = g"
| "Generate_types descr totalTypes i (d # ds) g =
     (case td_Spec d of
        TypeDecl_TypeExtSpec \<Rightarrow> Generate_types descr totalTypes (i + 1) ds g
      | TypeDecl_TypeSpec ts \<Rightarrow>
          (case ts_Type ts of
             TypeSpec_Schema _ \<Rightarrow> Generate_types descr totalTypes (i + 1) ds g
           | _ \<Rightarrow>
               (let name = Name (ts_Name ts);
                    g = WriteString ''var'' g;
                    g = WriteByte (CHR '' '') g;
                    g = WriteString name g;
                    g = Write typeSuffix g;
                    g = WriteByte (CHR '' '') g;
                    g = WriteByte (CHR ''='') g;
                    g = WriteByte (CHR '' '') g;
                    g = WriteString ''graphql'' g;
                    g = WriteByte (CHR ''.'') g;
                    g = (case ts_Type ts of
                           TypeSpec_Schema _ \<Rightarrow> g
                         | TypeSpec_Scalar \<Rightarrow> generateScalar name descr (td_Doc d) g
                         | TypeSpec_Object obj \<Rightarrow> generateObject name descr (td_Doc d) obj g
                         | TypeSpec_Interface intf \<Rightarrow> generateInterface name descr (td_Doc d) intf g
                         | TypeSpec_Union un \<Rightarrow> generateUnion name descr (td_Doc d) un g
                         | TypeSpec_Enum enum \<Rightarrow> generateEnum name descr (td_Doc d) enum g
                         | TypeSpec_Input inp \<Rightarrow> generateInput name descr (td_Doc d) inp g
                         | TypeSpec_Directive directive \<Rightarrow>
                             generateDirective name descr (td_Doc d) directive g);
                    g = (if i \<noteq> totalTypes then P [] g else g)
                in Generate_types descr totalTypes (i + 1) ds g)))"

text \<open>The loop over the root operations; the type of each must be an identifier.\<close>

fun Generate_rootOps :: "Field list \<Rightarrow> Generator \<Rightarrow> Generator go" where
  "Generate_rootOps [] g = Return g"
| "Generate_rootOps (op # ops) g =
     (let g = Write (indent g) g;
          g = (if Name (f_Name op) = ''query'' then WriteString ''Query: '' g
               else if Name (f_Name op) = ''mutation'' then WriteString ''Mutation: '' g
               else if Name (f_Name op) = ''subscription'' then WriteString ''Subscription: '' g
               else g)
      in case f_Type op of
           Some (Field_Ident ident) \<Rightarrow>
             (let g = WriteString (Name ident) g;
                  g = Write typeSuffix g;
                  g = WriteByte (CHR '','') g;
                  g = WriteByte NL g
              in Generate_rootOps ops g)
         | _ \<Rightarrow> Panic)"

text \<open>The block that builds the schema, written when the document has a schema declaration.\<close>

definition Generate_schema :: "TypeDecl option \<Rightarrow> Generator \<Rightarrow> Generator go" where
  "Generate_schema schema g =
     (case schema of
        None \<Rightarrow> Return g
      | Some decl \<Rightarrow>
          (let g = P [] g;
               g = P [A_string ''func init() {''] g;
               g = In g;
               g = P [A_string ''var err error''] g;
               g = P [A_string ''Schema, err = graphql.NewSchema(graphql.SchemaConfig{''] g;
               g = In g
           in case td_Spec decl of
                TypeDecl_TypeSpec ts \<Rightarrow>
                  (case ts_Type ts of
                     TypeSpec_Schema sch \<Rightarrow>
                       (case Generate_rootOps (RootOps sch) g of
                          Panic \<Rightarrow> Panic
                        | Return g \<Rightarrow>
                            (let g = Out g;
                                 g = P [A_string ''})''] g;
                                 g = P [A_string ''if err != nil {''] g;
                                 g = In g;
                                 g = P [A_string ''panic(err)''] g;
                                 g = Out g;
                                 g = P [A_string ''}''] g;
                                 g = Out g
                             in Return (P [A_string ''}''] g)))
                   | _ \<Rightarrow> Panic)
              | _ \<Rightarrow> Panic))"

text \<open>
  The output sink. \<open>Open\<close> yields the file (\<open>None\<close> is the nil interface) and the
  error; writing to a file yields the number of bytes taken and the error. What Generate
  does to the sink is recorded as a list of events.
\<close>

record WriteCloser =
  wc_Write :: "string \<Rightarrow> nat \<times> error option"

record GeneratorContext =
  Open :: "string \<Rightarrow> WriteCloser option \<times> error option"

datatype sink_event = Opened string | Written string | Closed

text \<open>
  \<^verbatim>\<open>bytes.Buffer.WriteTo\<close> of the Go standard library: one call of \<^verbatim>\<open>Write\<close>
  with the whole content when it is not empty; the bytes taken leave the buffer, and the
  buffer is reset when all of them were taken.
\<close>

definition WriteTo :: "WriteCloser \<Rightarrow> Generator \<Rightarrow> (error option \<times> Generator) go" where
  "WriteTo w g =
     (let nBytes = length (Buffer g) in
      if nBytes > 0 then
        (case wc_Write w (Buffer g) of
           (m, e) \<Rightarrow>
             if m > nBytes then Panic
             else
               (let g = g\<lparr>Buffer := drop m (Buffer g)\<rparr> in
                case e of
                  Some err \<Rightarrow> Return (Some err, g)
                | None \<Rightarrow>
                    if m \<noteq> nBytes then Return (Some ErrShortWrite, g)
                    else Return (None, g\<lparr>Buffer := []\<rparr>)))
      else Return (None, g\<lparr>Buffer := []\<rparr>))"

text \<open>\<^verbatim>\<open>filepath.Ext\<close>: the suffix from the last dot of the last path element.\<close>

definition Ext :: "string \<Rightarrow> string" where
  "Ext path =
     (let elem = takeWhile (\<lambda>c. c \<noteq> CHR ''/'') (rev path) in
      if CHR ''.'' \<in> set elem then CHR ''.'' # rev (takeWhile (\<lambda>c. c \<noteq> CHR ''.'') elem)
      else [])"

text \<open>
  The error a caller of Generate receives. \<open>Msg\<close> is the message of the error it wraps,
  kept here as the error itself.
\<close>

record GeneratorError =
  DocName :: string
  GenName :: string
  Msg :: error

definition wrap_error :: "Document \<Rightarrow> error option \<Rightarrow> GeneratorError option" where
  "wrap_error doc err =
     (case err of
        None \<Rightarrow> None
      | Some e \<Rightarrow> Some \<lparr>DocName = doc_Name doc, GenName = ''go'', Msg = e\<rparr>)"

text \<open>
  The last part of Generate: the file is opened, its \<^verbatim>\<open>Close\<close> is deferred before
  the error of \<^verbatim>\<open>Open\<close> is looked at (a method of a nil interface cannot be
  deferred: that panics), and the buffer is written.
\<close>

definition Generate_output ::
    "GeneratorContext \<Rightarrow> Document \<Rightarrow> Generator \<Rightarrow> (GeneratorError option \<times> Generator \<times> sink_event list) go" where
  "Generate_output gCtx doc g =
     (let goFileName = take (length (doc_Name doc) - length (Ext (doc_Name doc))) (doc_Name doc)
      in case Open gCtx (goFileName @ ''.go'') of
           (goFile, err) \<Rightarrow>
             (case goFile of
                None \<Rightarrow> Panic
              | Some file \<Rightarrow>
                  (case err of
                     Some e \<Rightarrow>
                       Return (wrap_error doc (Some e), g, [Opened (goFileName @ ''.go''), Closed])
                   | None \<Rightarrow>
                       (case WriteTo file g of
                          Panic \<Rightarrow> Panic
                        | Return (err, g') \<Rightarrow>
                            Return (wrap_error doc err, g',
                                    [Opened (goFileName @ ''.go''), Written (Buffer g), Closed])))))"

text \<open>
  Generate returns the error handed to the caller, the generator it leaves behind and
  the events of the sink, or panics.
\<close>

definition Generate ::
    "(string \<Rightarrow> Options \<Rightarrow> error + Options) \<Rightarrow> GeneratorContext \<Rightarrow> Document \<Rightarrow> string \<Rightarrow> Generator
      \<Rightarrow> (GeneratorError option \<times> Generator \<times> sink_event list) go" where
  "Generate Unmarshal gCtx doc opts g =
     (let g = Reset g in
      case getOptions Unmarshal doc opts of
        Panic \<Rightarrow> Panic
      | Return (Inl oerr) \<Rightarrow> Return (wrap_error doc (Some oerr), g, [])
      | Return (Inr gOpts) \<Rightarrow>
          (let g = writeHeader (Package gOpts) g;
               g = (if doc_Schema doc \<noteq> None then
                      P [] (P [A_string ''var Schema graphql.Schema''] g)
                    else g);
               totalTypes = int (length (doc_Types doc)) - 1;
               g = Generate_types (Descriptions gOpts) totalTypes 0 (doc_Types doc) g
           in case Generate_schema (doc_Schema doc) g of
                Panic \<Rightarrow> Panic
              | Return g \<Rightarrow> Generate_output gCtx doc g))"

subsection \<open>The type printer as the specification words it\<close>

text \<open>
  The specification's \<^verbatim>\<open>TypeRef\<close> is \<^verbatim>\<open>Named(name) | List(TypeRef) | NonNull(TypeRef)\<close>,
  rendered recursively. \<open>TypeRef_List\<close> and \<open>TypeRef_NonNull\<close> read an AST value as
  the type reference it stands for.
\<close>

datatype TypeRef = Named string | List TypeRef | NonNull TypeRef

fun render :: "TypeRef \<Rightarrow> string" where
  "render (Named n) =
     (if n \<in> {''Int'', ''Float'', ''String'', ''Boolean'', ''ID''} then ''graphql.'' @ n
      else n @ typeSuffix)"
| "render (List inner) = ''graphql.NewList('' @ render inner @ '')''"
| "render (NonNull inner) = ''graphql.NewNonNull('' @ render inner @ '')''"

fun TypeRef_List :: "ast_List \<Rightarrow> TypeRef"
  and TypeRef_NonNull :: "ast_NonNull \<Rightarrow> TypeRef" where
  "TypeRef_List (List_Ident i) = List (Named (Name i))"
| "TypeRef_List (List_List l) = List (TypeRef_List l)"
| "TypeRef_List (List_NonNull n) = List (TypeRef_NonNull n)"
| "TypeRef_NonNull (NonNull_Ident i) = NonNull (Named (Name i))"
| "TypeRef_NonNull (NonNull_List l) = NonNull (TypeRef_List l)"

fun TypeRef_any :: "any_Type \<Rightarrow> TypeRef option" where
  "TypeRef_any T_nil = None"
| "TypeRef_any (T_Ident i) = Some (Named (Name i))"
| "TypeRef_any (T_List l) = Some (TypeRef_List l)"
| "TypeRef_any (T_NonNull n) = Some (TypeRef_NonNull n)"

subsection \<open>Sequences of indentation calls\<close>

text \<open>
  A sequence of calls of \<^verbatim>\<open>In\<close> and \<^verbatim>\<open>Out\<close>, and the indentation depth the
  specification gives it: one unit more, one unit less, and no change when a unit is taken
  off depth zero.
\<close>

datatype indent_call = Call_In | Call_Out

fun run_calls :: "indent_call list \<Rightarrow> Generator \<Rightarrow> Generator" where
  "run_calls [] g = g"
| "run_calls (Call_In # cs) g = run_calls cs (In g)"
| "run_calls (Call_Out # cs) g = run_calls cs (Out g)"

fun depth_after :: "indent_call list \<Rightarrow> int \<Rightarrow> int" where
  "depth_after [] d = d"
| "depth_after (Call_In # cs) d = depth_after cs (d + 1)"
| "depth_after (Call_Out # cs) d = depth_after cs (if d > 0 then d - 1 else d)"

subsection \<open>Written text\<close>

text \<open>
  The text a step \<open>f\<close> of the generator writes at indentation \<open>ind\<close>: what it leaves
  in an empty buffer.
\<close>

definition text_of :: "(Generator \<Rightarrow> Generator) \<Rightarrow> string \<Rightarrow> string" where
  "text_of f ind = Buffer (f \<lparr>Buffer = [], indent = ind\<rparr>)"

text \<open>The elements of a list with their indices, counted from \<open>i\<close>.\<close>

fun indexed :: "int \<Rightarrow> 'a list \<Rightarrow> (int \<times> 'a) list" where
  "indexed i [] = []"
| "indexed i (x # xs) = (i, x) # indexed (i + 1) xs"

text \<open>The keyed field an emitter writes for the description \<open>t\<close>, up to the end of its line.\<close>

definition Description_field :: "string \<Rightarrow> string" where
  "Description_field t = ''Description: \"'' @ t @ ''\",'' @ [NL]"

subsection \<open>Concrete inputs\<close>

text \<open>A fresh generator, \<^verbatim>\<open>&Generator{}\<close>.\<close>

definition new_Generator :: Generator where
  "new_Generator = \<lparr>Buffer = [], indent = []\<rparr>"

text \<open>
  Values of \<^verbatim>\<open>json.Unmarshal\<close>: on a blob whose only field is \<^verbatim>\<open>package\<close>,
  with the decoded string \<open>p\<close>, and on a blob that is not JSON.
\<close>

definition Unmarshal_package :: "string \<Rightarrow> string \<Rightarrow> Options \<Rightarrow> error + Options" where
  "Unmarshal_package p opts gOpts = Inr (gOpts\<lparr>Package := p\<rparr>)"

definition Unmarshal_invalid :: "string \<Rightarrow> Options \<Rightarrow> error + Options" where
  "Unmarshal_invalid opts gOpts = Inl (External_error ''invalid character'')"

text \<open>A sink that takes every byte, and one whose \<^verbatim>\<open>Open\<close> fails with a nil file.\<close>

definition sink_accepting :: GeneratorContext where
  "sink_accepting = \<lparr>Open = (\<lambda>filename. (Some \<lparr>wc_Write = (\<lambda>p. (length p, None))\<rparr>, None))\<rparr>"

definition sink_open_fails :: GeneratorContext where
  "sink_open_fails = \<lparr>Open = (\<lambda>filename. (None, Some (External_error ''permission denied'')))\<rparr>"

text \<open>The declaration \<^verbatim>\<open>scalar Version\<close> and a type extension.\<close>

definition decl_Version :: TypeDecl where
  "decl_Version =
     \<lparr>td_Doc = None,
      td_Spec = TypeDecl_TypeSpec \<lparr>ts_Name = Ident ''Version'', ts_Type = TypeSpec_Scalar\<rparr>\<rparr>"

definition decl_extension :: TypeDecl where
  "decl_extension = \<lparr>td_Doc = None, td_Spec = TypeDecl_TypeExtSpec\<rparr>"

text \<open>A document with a scalar followed by a type extension, and an empty document.\<close>

definition doc_extension_last :: Document where
  "doc_extension_last =
     \<lparr>doc_Name = ''test.gql'', doc_Directives = [], doc_Schema = None,
      doc_Types = [decl_Version, decl_extension]\<rparr>"

text \<open>
  The declaration \<^verbatim>\<open>schema { query: Query }\<close>, and a document in which it stands
  last.
\<close>

definition decl_schema :: TypeDecl where
  "decl_schema =
     \<lparr>td_Doc = None,
      td_Spec = TypeDecl_TypeSpec
        \<lparr>ts_Name = Ident ''schema'',
         ts_Type = TypeSpec_Schema
           \<lparr>RootOps = [\<lparr>f_Doc = None, f_Name = Ident ''query'', f_Args = None,
                        f_Type = Some (Field_Ident (Ident ''Query''))\<rparr>]\<rparr>\<rparr>\<rparr>"

definition doc_schema_last :: Document where
  "doc_schema_last =
     \<lparr>doc_Name = ''test.gql'', doc_Directives = [], doc_Schema = Some decl_schema,
      doc_Types = [decl_Version, decl_schema]\<rparr>"

text \<open>
  The value of \<^verbatim>\<open>json.Unmarshal\<close> on a blob whose only field is
  \<^verbatim>\<open>descriptions\<close>.
\<close>

definition Unmarshal_descriptions :: "bool \<Rightarrow> string \<Rightarrow> Options \<Rightarrow> error + Options" where
  "Unmarshal_descriptions b opts gOpts = Inr (gOpts\<lparr>Descriptions := b\<rparr>)"

text \<open>
  The document of \<^verbatim>\<open>ExampleGenerator_Generate\<close>: the schema declaration, then the
  documented type \<^verbatim>\<open>Query\<close> with the field \<^verbatim>\<open>hello: String\<close>.
\<close>

definition decl_Query :: TypeDecl where
  "decl_Query =
     \<lparr>td_Doc = Some (DocGroup ''Query represents the queries this example provides.\<newline>''),
      td_Spec = TypeDecl_TypeSpec
        \<lparr>ts_Name = Ident ''Query'',
         ts_Type = TypeSpec_Object
           \<lparr>Interfaces = [],
            obj_Fields = [\<lparr>f_Doc = None, f_Name = Ident ''hello'', f_Args = None,
                           f_Type = Some (Field_Ident (Ident ''String''))\<rparr>]\<rparr>\<rparr>\<rparr>"

definition doc_example :: Document where
  "doc_example =
     \<lparr>doc_Name = ''example'', doc_Directives = [], doc_Schema = Some decl_schema,
      doc_Types = [decl_schema, decl_Query]\<rparr>"

definition doc_empty :: Document where
  "doc_empty = \<lparr>doc_Name = ''test.gql'', doc_Directives = [], doc_Schema = None, doc_Types = []\<rparr>"

text \<open>A document with the directive \<^verbatim>\<open>@go(options: {descriptions: maybe})\<close>.\<close>

definition doc_bad_descriptions :: Document where
  "doc_bad_descriptions =
     \<lparr>doc_Name = ''test.gql'',
      doc_Directives =
        [\<lparr>dl_Name = ''go'',
          dl_Args = Some [\<lparr>arg_Name = Ident ''options'',
                          arg_Value = Arg_CompositeLit (CompositeLit_ObjLit (ObjLit
                            [ObjLit_Pair (Ident ''descriptions'')
                               (CompositeLit_BasicLit (BasicLit ''maybe''))]))\<rparr>]\<rparr>],
      doc_Schema = None,
      doc_Types = [decl_Version]\<rparr>"

text \<open>The field \<^verbatim>\<open>echo(text: String): Echo\<close>.\<close>

definition field_echo :: Field where
  "field_echo =
     \<lparr>f_Doc = None, f_Name = Ident ''echo'',
      f_Args = Some [\<lparr>iv_Doc = None, iv_Name = Ident ''text'',
                      iv_Type = Some (InputValue_Ident (Ident ''String'')),
                      iv_Default = None\<rparr>],
      f_Type = Some (Field_Ident (Ident ''Echo''))\<rparr>"

section \<open>Properties\<close>

lemmas wprims =
  P_def Write_def WriteByte_def WriteString_def WriteRune_def In_def Out_def typeSuffix_def

lemmas prims = wprims printDescr_if_def printDescr_def

subsection \<open>The type printer\<close>

lemma render_Named: "render (Named n) = builtin_name n"
  by (simp add: builtin_name_def typeSuffix_def)

lemma printType_render:
  "printType t g = g\<lparr>Buffer := Buffer g @ (case TypeRef_any t of None \<Rightarrow> [] | Some r \<Rightarrow> render r)\<rparr>"
proof (induction t g rule: printType.induct)
  case (1 g)
  show ?case by simp
next
  case (2 v g)
  show ?case by (simp add: WriteString_def render_Named del: render.simps)
next
  case (3 v g)
  then show ?case
    by (cases v) (simp_all add: WriteString_def WriteByte_def render_Named del: render.simps(1))
next
  case (4 v g)
  then show ?case
    by (cases v) (simp_all add: WriteString_def WriteByte_def render_Named del: render.simps(1))
qed

text \<open>
  C8. The type printer appends to the buffer the rendering the specification gives: a
  built-in name as its fixed \<^verbatim>\<open>graphql\<close> identifier, any other name with the type
  suffix, a list as \<^verbatim>\<open>graphql.NewList(\<close> around the rendering of its element, a
  non-null type as \<^verbatim>\<open>graphql.NewNonNull(\<close> around the rendering of its inner type, at
  every nesting depth. In particular a list of non-null \<^verbatim>\<open>String\<close> is
  \<^verbatim>\<open>graphql.NewList(graphql.NewNonNull(graphql.String))\<close>.
\<close>

theorem printType_renders:
  "printType (T_Ident i) g = g\<lparr>Buffer := Buffer g @ render (Named (Name i))\<rparr>
   \<and> printType (T_List l) g = g\<lparr>Buffer := Buffer g @ render (TypeRef_List l)\<rparr>
   \<and> printType (T_NonNull n) g = g\<lparr>Buffer := Buffer g @ render (TypeRef_NonNull n)\<rparr>
   \<and> Buffer (printType (T_List (List_NonNull (NonNull_Ident (Ident ''String'')))) g) =
       Buffer g @ ''graphql.NewList(graphql.NewNonNull(graphql.String))''
   \<and> Buffer (printType (T_NonNull (NonNull_List (List_List (List_NonNull (NonNull_Ident (Ident ''Node'')))))) g) =
       Buffer g @ ''graphql.NewNonNull(graphql.NewList(graphql.NewList(graphql.NewNonNull(NodeType))))''"
  by (simp add: printType_render typeSuffix_def)

subsection \<open>Indentation\<close>

lemma In_depth: "int (length (indent (In g))) = int (length (indent g)) + 1"
  by (simp add: In_def)

lemma Out_depth:
  "int (length (indent (Out g))) =
     (if int (length (indent g)) > 0 then int (length (indent g)) - 1 else int (length (indent g)))"
  by (cases "indent g") (simp_all add: Out_def)

lemma run_calls_depth:
  "int (length (indent (run_calls cs g))) = depth_after cs (int (length (indent g)))"
  by (induction cs g rule: run_calls.induct) (simp_all only: run_calls.simps depth_after.simps In_depth Out_depth)

lemma depth_after_nonneg: "0 \<le> d \<Longrightarrow> 0 \<le> depth_after cs d"
  by (induction cs d rule: depth_after.induct) auto

lemma run_calls_Buffer: "Buffer (run_calls cs g) = Buffer g"
  by (induction cs g rule: run_calls.induct) (auto simp: In_def Out_def)

text \<open>
  C10. \<^verbatim>\<open>In\<close> appends exactly one indent unit; \<^verbatim>\<open>Out\<close> removes exactly the last
  unit of a non-empty indentation and leaves the generator as it is at depth zero. After
  any sequence of calls the depth is the one the specification counts, which is never
  negative, and the buffer is untouched.
\<close>

theorem In_Out_indent:
  "In \<lparr>Buffer = b, indent = i\<rparr> = \<lparr>Buffer = b, indent = i @ [TAB]\<rparr>
   \<and> Out \<lparr>Buffer = b, indent = i @ [c]\<rparr> = \<lparr>Buffer = b, indent = i\<rparr>
   \<and> Out \<lparr>Buffer = b, indent = []\<rparr> = \<lparr>Buffer = b, indent = []\<rparr>
   \<and> int (length (indent (run_calls cs g))) = depth_after cs (int (length (indent g)))
   \<and> 0 \<le> depth_after cs (int (length (indent g)))
   \<and> Buffer (run_calls cs g) = Buffer g"
  by (simp add: In_def Out_def run_calls_depth depth_after_nonneg run_calls_Buffer)

subsection \<open>Generate\<close>

lemma Reset_eq: "Reset g = \<lparr>Buffer = [], indent = []\<rparr>"
  by (cases g) (simp add: Reset_def)

text \<open>
  The two ways option resolution fails: a \<^verbatim>\<open>descriptions\<close> value that is not a
  boolean, and a blob that \<^verbatim>\<open>json.Unmarshal\<close> rejects.
\<close>

lemma getOptions_fields_ParseBool_error:
  assumes "ParseBool (Value b) = Inl e"
  shows "getOptions_fields (ObjLit_Pair (Ident ''descriptions'') (CompositeLit_BasicLit b) # args) gOpts
         = Return (Inl e)"
  using assms by simp

lemma getOptions_Unmarshal_error:
  assumes "getOptions_directives (doc_Directives doc) \<lparr>Package = ''main'', Descriptions = False\<rparr>
             = Return (Inr gOpts)"
    and "opts \<noteq> []"
    and "Unmarshal opts gOpts = Inl e"
  shows "getOptions Unmarshal doc opts = Return (Inl e)"
  using assms by (simp add: getOptions_def)

text \<open>
  C6. When option resolution returns an error, Generate returns that error wrapped with
  the name of the document and the name \<^verbatim>\<open>go\<close>; the buffer is empty (neither the
  header nor a declaration was written) and the sink has seen no event.
\<close>

theorem Generate_option_error:
  assumes "getOptions Unmarshal doc opts = Return (Inl oerr)"
  shows "Generate Unmarshal gCtx doc opts g =
         Return (Some \<lparr>DocName = doc_Name doc, GenName = ''go'', Msg = oerr\<rparr>,
                 \<lparr>Buffer = [], indent = []\<rparr>, [])"
  using assms by (simp add: Generate_def Reset_def wrap_error_def)

theorem Generate_option_error_witness:
  "getOptions Unmarshal_invalid doc_bad_descriptions [] = Return (Inl (ParseBool_error ''maybe''))
   \<and> Generate Unmarshal_invalid sink_accepting doc_bad_descriptions [] new_Generator =
         Return (Some \<lparr>DocName = ''test.gql'', GenName = ''go'', Msg = ParseBool_error ''maybe''\<rparr>,
                 \<lparr>Buffer = [], indent = []\<rparr>, [])"
proof -
  have h: "getOptions Unmarshal_invalid doc_bad_descriptions [] = Return (Inl (ParseBool_error ''maybe''))"
    by (simp add: getOptions_def doc_bad_descriptions_def ParseBool_def)
  show ?thesis
    using h Generate_option_error [OF h, of sink_accepting new_Generator]
    by (simp add: doc_bad_descriptions_def)
qed

subsection \<open>The text written by the emitters\<close>

text \<open>
  Every step of an emitter leaves the indentation as it found it and appends to the
  buffer a text that depends only on the indentation.
\<close>

lemma text_of_weak_cong [cong]: "i = j \<Longrightarrow> text_of f i = text_of f j"
  by simp

lemma printType_text:
  "printType t g = g\<lparr>Buffer := Buffer g @ text_of (printType t) (indent g)\<rparr>"
  by (simp add: text_of_def printType_render)

lemma printVal_text_aux:
  fixes g :: Generator
  shows "\<forall>h. printVal v h = h\<lparr>Buffer := Buffer h @ text_of (printVal v) (indent h)\<rparr>"
    and "\<forall>h. printVal_vals n i vs h = h\<lparr>Buffer := Buffer h @ text_of (printVal_vals n i vs) (indent h)\<rparr>"
    and "\<forall>h. printVal_fields n' i' ps h = h\<lparr>Buffer := Buffer h @ text_of (printVal_fields n' i' ps) (indent h)\<rparr>"
proof (induction v g and n i vs g and n' i' ps g rule: printVal_printVal_vals_printVal_fields.induct)
  case (1 g)
  show ?case by (simp add: text_of_def)
next
  case (2 v g)
  show ?case by (simp add: text_of_def wprims)
next
  case (3 v g)
  note IH = 3[OF refl refl refl, rule_format]
  show ?case
    by (subst text_of_def) (simp add: wprims Let_def IH)
next
  case (4 v g)
  note IH = 4[OF refl refl refl, rule_format]
  show ?case
    by (subst text_of_def) (simp add: wprims Let_def IH)
next
  case (5 v g)
  show ?case
  proof (cases v)
    case (CompositeLit_BasicLit w)
    show ?thesis
      using 5(1)[OF CompositeLit_BasicLit]
      by (subst text_of_def) (simp add: CompositeLit_BasicLit)
  next
    case (CompositeLit_ListLit w)
    show ?thesis
      using 5(2)[OF CompositeLit_ListLit]
      by (subst text_of_def) (simp add: CompositeLit_ListLit)
  next
    case (CompositeLit_ObjLit w)
    show ?thesis
      using 5(3)[OF CompositeLit_ObjLit]
      by (subst text_of_def) (simp add: CompositeLit_ObjLit)
  qed
next
  case (6 vLen i g)
  show ?case by (simp add: text_of_def)
next
  case (7 vLen i iv vals g)
  note IH1 = 7(1)[rule_format]
  note IH2 = 7(2)[OF refl refl, rule_format]
  show ?case
    by (subst text_of_def) (simp add: wprims Let_def IH1 IH2)
next
  case (8 pLen i g)
  show ?case by (simp add: text_of_def)
next
  case (9 pLen i p ps g)
  note IH1 = 9(1)[OF refl refl, rule_format]
  note IH2 = 9(2)[OF refl refl refl refl refl, rule_format]
  show ?case
    by (subst text_of_def) (simp add: wprims Let_def IH1 IH2 del: printVal.simps)
qed

lemma printVal_text:
  "printVal v g = g\<lparr>Buffer := Buffer g @ text_of (printVal v) (indent g)\<rparr>"
  using printVal_text_aux(1) [of v] by blast


lemma printDescr_if_text:
  "printDescr_if doc descr g = g\<lparr>Buffer := Buffer g @ text_of (printDescr_if doc descr) (indent g)\<rparr>"
  by (subst text_of_def) (simp add: printDescr_if_def printDescr_def Let_def Write_def WriteString_def WriteByte_def split: option.splits)

lemma generateObject_args_text:
  "generateObject_args descr xs g = g\<lparr>Buffer := Buffer g @ text_of (generateObject_args descr xs) (indent g)\<rparr>"
proof (induction xs arbitrary: g)
  case Nil
  show ?case by (simp add: text_of_def)
next
  case (Cons x xs)
  show ?case
    apply (subst text_of_def)
    unfolding generateObject_args.simps Let_def
    by (cases "iv_Default x")
       (simp_all add: wprims printType_text printVal_text printDescr_if_text  Cons.IH)
qed

lemma generateObject_fields_text:
  "generateObject_fields descr xs g = g\<lparr>Buffer := Buffer g @ text_of (generateObject_fields descr xs) (indent g)\<rparr>"
proof (induction xs arbitrary: g)
  case Nil
  show ?case by (simp add: text_of_def)
next
  case (Cons x xs)
  show ?case
    apply (subst text_of_def)
    unfolding generateObject_fields.simps Let_def
    by (cases "f_Args x")
       (simp_all add: wprims printType_text printVal_text printDescr_if_text generateObject_args_text Cons.IH)
qed

lemma generateObject_interfaces_text:
  "generateObject_interfaces xs g = g\<lparr>Buffer := Buffer g @ text_of (generateObject_interfaces xs) (indent g)\<rparr>"
proof (induction xs arbitrary: g)
  case Nil
  show ?case by (simp add: text_of_def)
next
  case (Cons x xs)
  show ?case
    apply (subst text_of_def)
    unfolding generateObject_interfaces.simps Let_def
    by (simp_all add: wprims printType_text printVal_text printDescr_if_text  Cons.IH)
qed

lemma generateInterface_args_text:
  "generateInterface_args descr xs g = g\<lparr>Buffer := Buffer g @ text_of (generateInterface_args descr xs) (indent g)\<rparr>"
proof (induction xs arbitrary: g)
  case Nil
  show ?case by (simp add: text_of_def)
next
  case (Cons x xs)
  show ?case
    apply (subst text_of_def)
    unfolding generateInterface_args.simps Let_def
    by (cases "iv_Default x")
       (simp_all add: wprims printType_text printVal_text printDescr_if_text  Cons.IH)
qed

lemma generateInterface_fields_text:
  "generateInterface_fields descr xs g = g\<lparr>Buffer := Buffer g @ text_of (generateInterface_fields descr xs) (indent g)\<rparr>"
proof (induction xs arbitrary: g)
  case Nil
  show ?case by (simp add: text_of_def)
next
  case (Cons x xs)
  show ?case
    apply (subst text_of_def)
    unfolding generateInterface_fields.simps Let_def
    by (cases "f_Args x")
       (simp_all add: wprims printType_text printVal_text printDescr_if_text generateInterface_args_text Cons.IH)
qed

lemma generateUnion_members_text:
  "generateUnion_members xs g = g\<lparr>Buffer := Buffer g @ text_of (generateUnion_members xs) (indent g)\<rparr>"
proof (induction xs arbitrary: g)
  case Nil
  show ?case by (simp add: text_of_def)
next
  case (Cons x xs)
  show ?case
    apply (subst text_of_def)
    unfolding generateUnion_members.simps Let_def
    by (simp_all add: wprims printType_text printVal_text printDescr_if_text  Cons.IH)
qed

lemma generateEnum_values_text:
  "generateEnum_values descr xs g = g\<lparr>Buffer := Buffer g @ text_of (generateEnum_values descr xs) (indent g)\<rparr>"
proof (induction xs arbitrary: g)
  case Nil
  show ?case by (simp add: text_of_def)
next
  case (Cons x xs)
  show ?case
    apply (subst text_of_def)
    unfolding generateEnum_values.simps Let_def
    by (simp_all add: wprims printType_text printVal_text printDescr_if_text  Cons.IH)
qed

lemma generateInput_fields_text:
  "generateInput_fields descr xs g = g\<lparr>Buffer := Buffer g @ text_of (generateInput_fields descr xs) (indent g)\<rparr>"
proof (induction xs arbitrary: g)
  case Nil
  show ?case by (simp add: text_of_def)
next
  case (Cons x xs)
  show ?case
    apply (subst text_of_def)
    unfolding generateInput_fields.simps Let_def
    by (cases "iv_Default x")
       (simp_all add: wprims printType_text printVal_text printDescr_if_text  Cons.IH)
qed

lemma generateDirective_locs_text:
  "generateDirective_locs xs g = g\<lparr>Buffer := Buffer g @ text_of (generateDirective_locs xs) (indent g)\<rparr>"
proof (induction xs arbitrary: g)
  case Nil
  show ?case by (simp add: text_of_def)
next
  case (Cons x xs)
  show ?case
    apply (subst text_of_def)
    unfolding generateDirective_locs.simps Let_def
    by (simp_all add: wprims printType_text printVal_text printDescr_if_text  Cons.IH)
qed

lemma generateDirective_args_text:
  "generateDirective_args descr xs g = g\<lparr>Buffer := Buffer g @ text_of (generateDirective_args descr xs) (indent g)\<rparr>"
proof (induction xs arbitrary: g)
  case Nil
  show ?case by (simp add: text_of_def)
next
  case (Cons x xs)
  show ?case
    apply (subst text_of_def)
    unfolding generateDirective_args.simps Let_def
    by (cases "iv_Default x")
       (simp_all add: wprims printType_text printVal_text printDescr_if_text  Cons.IH)
qed

subsection \<open>The place of the description\<close>

lemma printDescr_if_Some:
  "printDescr_if (Some (DocGroup (t @ [c]))) True g =
     g\<lparr>Buffer := Buffer g @ indent g @ Description_field t\<rparr>"
  by (simp add: printDescr_if_def printDescr_def Description_field_def wprims Let_def)

lemma length_cases:
  obtains "length xs = 0" | "length xs = 1" | "length xs \<noteq> 1" "1 < length xs"
  by (cases xs rule: list.exhaust; cases "tl xs") auto

lemma union_descr:
  "suffix (Description_field t @ indent g @ ''})\<newline>'')
     (Buffer (generateUnion name True (Some (DocGroup (t @ [c]))) un g))"
  unfolding generateUnion_def Let_def
  by (cases "Members un" rule: length_cases)
     (simp_all add: wprims printDescr_if_Some generateUnion_members_text suffix_to_prefix)

lemma object_descr:
  "suffix (Description_field t @ indent g @ ''})\<newline>'')
     (Buffer (generateObject name True (Some (DocGroup (t @ [c]))) obj g))"
  unfolding generateObject_def Let_def
  by (cases "Interfaces obj" rule: length_cases)
     (simp_all add: wprims printDescr_if_Some generateObject_interfaces_text
        generateObject_fields_text suffix_to_prefix)

lemma interface_descr:
  "suffix (Description_field t @ indent g @ ''})\<newline>'')
     (Buffer (generateInterface name True (Some (DocGroup (t @ [c]))) intf g))"
  unfolding generateInterface_def Let_def
  by (simp add: wprims printDescr_if_Some generateInterface_fields_text suffix_to_prefix)

lemma input_descr:
  "suffix (Description_field t @ indent g @ ''})\<newline>'')
     (Buffer (generateInput name True (Some (DocGroup (t @ [c]))) inp g))"
  unfolding generateInput_def Let_def
  by (simp add: wprims printDescr_if_Some generateInput_fields_text suffix_to_prefix)


lemma object_field_descr:
  "suffix (Description_field t @ indent g @ ''},\<newline>'')
     (Buffer (generateObject_fields True [f\<lparr>f_Doc := Some (DocGroup (t @ [c]))\<rparr>] g))"
  unfolding generateObject_fields.simps Let_def
  by (cases "f_Args f")
     (simp_all add: wprims printDescr_if_Some printType_text generateObject_args_text suffix_to_prefix)

lemma interface_field_descr:
  "suffix (Description_field t @ indent g @ ''},\<newline>'')
     (Buffer (generateInterface_fields True [f\<lparr>f_Doc := Some (DocGroup (t @ [c]))\<rparr>] g))"
  unfolding generateInterface_fields.simps Let_def
  by (cases "f_Args f")
     (simp_all add: wprims printDescr_if_Some printType_text generateInterface_args_text suffix_to_prefix)

lemma enum_value_descr:
  "suffix (Description_field t @ indent g @ ''},\<newline>'')
     (Buffer (generateEnum_values True [v\<lparr>f_Doc := Some (DocGroup (t @ [c]))\<rparr>] g))"
  unfolding generateEnum_values.simps Let_def
  by (simp add: wprims printDescr_if_Some suffix_to_prefix)

lemma input_field_descr:
  "suffix (Description_field t @ indent g @ ''},\<newline>'')
     (Buffer (generateInput_fields True [a\<lparr>iv_Doc := Some (DocGroup (t @ [c]))\<rparr>] g))"
  unfolding generateInput_fields.simps Let_def
  by (cases "iv_Default a")
     (simp_all add: wprims printDescr_if_Some printType_text printVal_text suffix_to_prefix)

lemma object_arg_descr:
  "suffix (Description_field t @ indent g @ ''},\<newline>'')
     (Buffer (generateObject_args True [a\<lparr>iv_Doc := Some (DocGroup (t @ [c]))\<rparr>] g))"
  unfolding generateObject_args.simps Let_def
  by (cases "iv_Default a")
     (simp_all add: wprims printDescr_if_Some printType_text printVal_text suffix_to_prefix)

lemma interface_arg_descr:
  "suffix (Description_field t @ indent g @ ''},\<newline>'')
     (Buffer (generateInterface_args True [a\<lparr>iv_Doc := Some (DocGroup (t @ [c]))\<rparr>] g))"
  unfolding generateInterface_args.simps Let_def
  by (cases "iv_Default a")
     (simp_all add: wprims printDescr_if_Some printType_text printVal_text suffix_to_prefix)

lemma directive_arg_descr:
  "suffix (Description_field t @ indent g @ ''},\<newline>'')
     (Buffer (generateDirective_args True [a\<lparr>iv_Doc := Some (DocGroup (t @ [c]))\<rparr>] g))"
  unfolding generateDirective_args.simps Let_def
  by (cases "iv_Default a")
     (simp_all add: wprims printDescr_if_Some printType_text printVal_text suffix_to_prefix)

lemma scalar_descr:
  "Buffer (generateScalar name True (Some (DocGroup (t @ [c]))) g) =
     Buffer g @ indent g @ ''NewScalar(graphql.ScalarConfig{\<newline>'' @
     indent g @ TAB # ''Name: \"'' @ name @ ''\",\<newline>'' @
     indent g @ TAB # Description_field t @
     indent g @ TAB # ''Serialize: func(value interface{}) interface{} { return nil }, // TODO\<newline>'' @
     indent g @ ''})\<newline>''"
  unfolding generateScalar_def Let_def
  by (simp add: wprims Description_field_def)

lemma enum_descr:
  "prefix (Buffer g @ indent g @ ''NewEnum(graphql.EnumConfig{\<newline>'' @
     indent g @ TAB # ''Name: \"'' @ name @ ''\",\<newline>'' @
     indent g @ TAB # Description_field t @
     indent g @ TAB # ''Values: graphql.EnumValueConfigMap{\<newline>'')
     (Buffer (generateEnum name True (Some (DocGroup (t @ [c]))) enum g))"
  unfolding generateEnum_def Let_def
  by (simp add: wprims printDescr_if_Some generateEnum_values_text)

lemma directive_descr:
  "prefix (Buffer g @ indent g @ ''NewDirective(graphql.DirectiveConfig{\<newline>'' @
     indent g @ TAB # ''Name: \"'' @ name @ ''\",\<newline>'' @
     indent g @ TAB # Description_field t)
     (Buffer (generateDirective name True (Some (DocGroup (t @ [c]))) directive g))"
  unfolding generateDirective_def Let_def
  by (cases "Locs directive" rule: length_cases; cases "dir_Args directive")
     (simp_all add: wprims Description_field_def generateDirective_locs_text generateDirective_args_text)

text \<open>
  C2, as stated, fails for a scalar: the description of \<^verbatim>\<open>scalar Version\<close> is
  followed by the \<^verbatim>\<open>Serialize\<close> field, so it is not the last field before the
  closing delimiter.
\<close>

theorem description_not_last_counterexample:
  "Buffer (generateScalar ''Version'' True
             (Some (DocGroup ''Version represents an API version.\<newline>'')) new_Generator) =
   ''NewScalar(graphql.ScalarConfig{\<newline>'' @
   TAB # ''Name: \"Version\",\<newline>'' @
   TAB # ''Description: \"Version represents an API version.\",\<newline>'' @
   TAB # ''Serialize: func(value interface{}) interface{} { return nil }, // TODO\<newline>'' @
   ''})\<newline>''
   \<and> \<not> suffix (Description_field ''Version represents an API version.'' @ ''})\<newline>'')
         (Buffer (generateScalar ''Version'' True
                   (Some (DocGroup ''Version represents an API version.\<newline>'')) new_Generator))"
  unfolding generateScalar_def Let_def
  by (simp add: wprims new_Generator_def Description_field_def suffix_to_prefix)

text \<open>
  C2, amended. With descriptions switched on and a doc text \<open>t @ [c]\<close>, the field
  written holds \<open>t\<close>, the text without its last byte. For an object, an interface, a
  union and an input declaration, and for every field, argument, enum value and input
  field, the description field is directly followed by the closing delimiter of its
  construct. For a scalar, an enum and a directive declaration it directly follows the
  \<^verbatim>\<open>Name\<close> field, before \<^verbatim>\<open>Serialize\<close>, \<^verbatim>\<open>Values\<close>, and the locations and
  arguments.
\<close>

theorem description_position:
  "suffix (Description_field t @ indent g @ ''})\<newline>'')
     (Buffer (generateObject name True (Some (DocGroup (t @ [c]))) obj g))
   \<and> suffix (Description_field t @ indent g @ ''})\<newline>'')
     (Buffer (generateInterface name True (Some (DocGroup (t @ [c]))) intf g))
   \<and> suffix (Description_field t @ indent g @ ''})\<newline>'')
     (Buffer (generateUnion name True (Some (DocGroup (t @ [c]))) un g))
   \<and> suffix (Description_field t @ indent g @ ''})\<newline>'')
     (Buffer (generateInput name True (Some (DocGroup (t @ [c]))) inp g))
   \<and> suffix (Description_field t @ indent g @ ''},\<newline>'')
     (Buffer (generateObject_fields True [f\<lparr>f_Doc := Some (DocGroup (t @ [c]))\<rparr>] g))
   \<and> suffix (Description_field t @ indent g @ ''},\<newline>'')
     (Buffer (generateInterface_fields True [f\<lparr>f_Doc := Some (DocGroup (t @ [c]))\<rparr>] g))
   \<and> suffix (Description_field t @ indent g @ ''},\<newline>'')
     (Buffer (generateEnum_values True [f\<lparr>f_Doc := Some (DocGroup (t @ [c]))\<rparr>] g))
   \<and> suffix (Description_field t @ indent g @ ''},\<newline>'')
     (Buffer (generateInput_fields True [a\<lparr>iv_Doc := Some (DocGroup (t @ [c]))\<rparr>] g))
   \<and> suffix (Description_field t @ indent g @ ''},\<newline>'')
     (Buffer (generateObject_args True [a\<lparr>iv_Doc := Some (DocGroup (t @ [c]))\<rparr>] g))
   \<and> suffix (Description_field t @ indent g @ ''},\<newline>'')
     (Buffer (generateInterface_args True [a\<lparr>iv_Doc := Some (DocGroup (t @ [c]))\<rparr>] g))
   \<and> suffix (Description_field t @ indent g @ ''},\<newline>'')
     (Buffer (generateDirective_args True [a\<lparr>iv_Doc := Some (DocGroup (t @ [c]))\<rparr>] g))
   \<and> Buffer (generateScalar name True (Some (DocGroup (t @ [c]))) g) =
       Buffer g @ indent g @ ''NewScalar(graphql.ScalarConfig{\<newline>'' @
       indent g @ TAB # ''Name: \"'' @ name @ ''\",\<newline>'' @
       indent g @ TAB # Description_field t @
       indent g @ TAB # ''Serialize: func(value interface{}) interface{} { return nil }, // TODO\<newline>'' @
       indent g @ ''})\<newline>''
   \<and> prefix (Buffer g @ indent g @ ''NewEnum(graphql.EnumConfig{\<newline>'' @
       indent g @ TAB # ''Name: \"'' @ name @ ''\",\<newline>'' @
       indent g @ TAB # Description_field t @
       indent g @ TAB # ''Values: graphql.EnumValueConfigMap{\<newline>'')
     (Buffer (generateEnum name True (Some (DocGroup (t @ [c]))) enum g))
   \<and> prefix (Buffer g @ indent g @ ''NewDirective(graphql.DirectiveConfig{\<newline>'' @
       indent g @ TAB # ''Name: \"'' @ name @ ''\",\<newline>'' @
       indent g @ TAB # Description_field t)
     (Buffer (generateDirective name True (Some (DocGroup (t @ [c]))) directive g))"
  by (intro conjI object_descr interface_descr union_descr input_descr object_field_descr
      interface_field_descr enum_value_descr input_field_descr object_arg_descr
      interface_arg_descr directive_arg_descr scalar_descr enum_descr directive_descr)

subsection \<open>Declared order\<close>

text \<open>
  The text of a loop is the concatenation, in the order of the list, of the texts of its
  elements; the text of an emitter is given line by line.
\<close>

lemma loop_concat:
  assumes step: "\<And>x xs g. f (x # xs) g = f xs (f [x] g)"
    and nil: "\<And>g. f [] g = g"
    and R: "\<And>xs g. f xs g = g\<lparr>Buffer := Buffer g @ text_of (f xs) (indent g)\<rparr>"
  shows "text_of (f xs) ind = concat (map (\<lambda>x. text_of (f [x]) ind) xs)"
proof (induction xs)
  case Nil
  show ?case by (simp add: text_of_def nil)
next
  case (Cons x xs)
  define e where "e = \<lparr>Buffer = [], indent = ind\<rparr>"
  have one: "f [x] e = e\<lparr>Buffer := Buffer e @ text_of (f [x]) (indent e)\<rparr>"
    by (rule R)
  have "text_of (f (x # xs)) ind = Buffer (f xs (f [x] e))"
    by (simp only: text_of_def step [of x xs] e_def)
  also have "\<dots> = Buffer (f [x] e) @ text_of (f xs) (indent (f [x] e))"
    by (subst R [of xs "f [x] e"]) simp
  also have "\<dots> = text_of (f [x]) ind @ text_of (f xs) ind"
    by (subst (1 2) one) (simp add: e_def)
  finally show ?case
    by (simp add: Cons.IH)
qed

lemma generateScalar_text:
  "generateScalar name descr doc g = g\<lparr>Buffer := Buffer g @ text_of (generateScalar name descr doc) (indent g)\<rparr>"
  apply (subst text_of_def)
  unfolding generateScalar_def Let_def
  by (cases doc; cases descr; cases "Text (the doc) = []") (simp_all add: wprims)

lemma generateObject_text:
  "generateObject name descr doc obj g = g\<lparr>Buffer := Buffer g @ text_of (generateObject name descr doc obj) (indent g)\<rparr>"
  apply (subst text_of_def)
  unfolding generateObject_def Let_def
  by (cases "Interfaces obj" rule: length_cases)
     (simp_all add: wprims printDescr_if_text generateObject_interfaces_text generateObject_fields_text)

lemma generateInterface_text:
  "generateInterface name descr doc intf g = g\<lparr>Buffer := Buffer g @ text_of (generateInterface name descr doc intf) (indent g)\<rparr>"
  apply (subst text_of_def)
  unfolding generateInterface_def Let_def
  by (simp add: wprims printDescr_if_text generateInterface_fields_text)

lemma generateUnion_text:
  "generateUnion name descr doc un g = g\<lparr>Buffer := Buffer g @ text_of (generateUnion name descr doc un) (indent g)\<rparr>"
  apply (subst text_of_def)
  unfolding generateUnion_def Let_def
  by (cases "Members un" rule: length_cases)
     (simp_all add: wprims printDescr_if_text generateUnion_members_text)

lemma generateEnum_text:
  "generateEnum name descr doc enum g = g\<lparr>Buffer := Buffer g @ text_of (generateEnum name descr doc enum) (indent g)\<rparr>"
  apply (subst text_of_def)
  unfolding generateEnum_def Let_def
  by (simp add: wprims printDescr_if_text generateEnum_values_text)

lemma generateInput_text:
  "generateInput name descr doc inp g = g\<lparr>Buffer := Buffer g @ text_of (generateInput name descr doc inp) (indent g)\<rparr>"
  apply (subst text_of_def)
  unfolding generateInput_def Let_def
  by (simp add: wprims printDescr_if_text generateInput_fields_text)

lemma generateDirective_text:
  "generateDirective name descr doc directive g = g\<lparr>Buffer := Buffer g @ text_of (generateDirective name descr doc directive) (indent g)\<rparr>"
  apply (subst text_of_def)
  unfolding generateDirective_def Let_def
  by (cases "Locs directive" rule: length_cases; cases "dir_Args directive"; cases doc; cases descr;
      cases "Text (the doc) = []")
     (simp_all add: wprims generateDirective_locs_text generateDirective_args_text)


lemma generateObject_args_order:
  "text_of (generateObject_args descr xs) ind = concat (map (\<lambda>x. text_of (generateObject_args descr [x]) ind) xs)"
  by (rule loop_concat; (rule generateObject_args_text | simp only: generateObject_args.simps Let_def))

lemma generateObject_fields_order:
  "text_of (generateObject_fields descr xs) ind = concat (map (\<lambda>x. text_of (generateObject_fields descr [x]) ind) xs)"
  by (rule loop_concat; (rule generateObject_fields_text | simp only: generateObject_fields.simps Let_def))

lemma generateObject_interfaces_order:
  "text_of (generateObject_interfaces xs) ind = concat (map (\<lambda>x. text_of (generateObject_interfaces [x]) ind) xs)"
  by (rule loop_concat; (rule generateObject_interfaces_text | simp only: generateObject_interfaces.simps Let_def))

lemma generateInterface_args_order:
  "text_of (generateInterface_args descr xs) ind = concat (map (\<lambda>x. text_of (generateInterface_args descr [x]) ind) xs)"
  by (rule loop_concat; (rule generateInterface_args_text | simp only: generateInterface_args.simps Let_def))

lemma generateInterface_fields_order:
  "text_of (generateInterface_fields descr xs) ind = concat (map (\<lambda>x. text_of (generateInterface_fields descr [x]) ind) xs)"
  by (rule loop_concat; (rule generateInterface_fields_text | simp only: generateInterface_fields.simps Let_def))

lemma generateUnion_members_order:
  "text_of (generateUnion_members xs) ind = concat (map (\<lambda>x. text_of (generateUnion_members [x]) ind) xs)"
  by (rule loop_concat; (rule generateUnion_members_text | simp only: generateUnion_members.simps Let_def))

lemma generateEnum_values_order:
  "text_of (generateEnum_values descr xs) ind = concat (map (\<lambda>x. text_of (generateEnum_values descr [x]) ind) xs)"
  by (rule loop_concat; (rule generateEnum_values_text | simp only: generateEnum_values.simps Let_def))

lemma generateInput_fields_order:
  "text_of (generateInput_fields descr xs) ind = concat (map (\<lambda>x. text_of (generateInput_fields descr [x]) ind) xs)"
  by (rule loop_concat; (rule generateInput_fields_text | simp only: generateInput_fields.simps Let_def))

lemma generateDirective_locs_order:
  "text_of (generateDirective_locs xs) ind = concat (map (\<lambda>x. text_of (generateDirective_locs [x]) ind) xs)"
  by (rule loop_concat; (rule generateDirective_locs_text | simp only: generateDirective_locs.simps Let_def))

lemma generateDirective_args_order:
  "text_of (generateDirective_args descr xs) ind = concat (map (\<lambda>x. text_of (generateDirective_args descr [x]) ind) xs)"
  by (rule loop_concat; (rule generateDirective_args_text | simp only: generateDirective_args.simps Let_def))

lemma generateObject_interfaces_single:
  "text_of (generateObject_interfaces [intf]) ind = ind @ Name intf @ ''Type,'' @ [NL]"
  by (simp add: text_of_def wprims)

lemma generateUnion_members_single:
  "text_of (generateUnion_members [mem]) ind = ind @ Name mem @ ''Type,'' @ [NL]"
  by (simp add: text_of_def wprims)

lemma generateDirective_locs_single:
  "text_of (generateDirective_locs [loc]) ind = ind @ DQ # Loc loc @ ''\",'' @ [NL]"
  by (simp add: text_of_def wprims)

lemma Generate_types_text:
  "Generate_types descr tot i ds g =
     g\<lparr>Buffer := Buffer g @ text_of (Generate_types descr tot i ds) (indent g)\<rparr>"
proof (induction ds arbitrary: i g)
  case Nil
  show ?case by (simp add: text_of_def)
next
  case (Cons d ds)
  show ?case
  proof (cases "td_Spec d")
    case TypeDecl_TypeExtSpec
    then show ?thesis
      by (subst text_of_def) (simp add: Cons.IH)
  next
    case (TypeDecl_TypeSpec ts)
    then show ?thesis
      apply (subst text_of_def)
      unfolding Generate_types.simps Let_def
      by (cases "ts_Type ts"; cases "i = tot")
         (simp_all add: wprims Cons.IH generateScalar_text generateObject_text generateInterface_text
            generateUnion_text generateEnum_text generateInput_text generateDirective_text)
  qed
qed

lemma Generate_types_step:
  "Generate_types descr tot i (d # ds) g =
     Generate_types descr tot (i + 1) ds (Generate_types descr tot i [d] g)"
  by (cases "td_Spec d"; cases "ts_Type (case td_Spec d of TypeDecl_TypeSpec ts \<Rightarrow> ts)")
     (simp_all add: Let_def)

lemma Generate_types_order:
  "text_of (Generate_types descr tot i ds) ind =
     concat (map (\<lambda>(k, d). text_of (Generate_types descr tot k [d]) ind) (indexed i ds))"
proof (induction ds arbitrary: i)
  case Nil
  show ?case by (simp add: text_of_def)
next
  case (Cons d ds)
  define e where "e = \<lparr>Buffer = [], indent = ind\<rparr>"
  have one: "Generate_types descr tot i [d] e =
               e\<lparr>Buffer := Buffer e @ text_of (Generate_types descr tot i [d]) (indent e)\<rparr>"
    by (rule Generate_types_text)
  have "text_of (Generate_types descr tot i (d # ds)) ind =
          Buffer (Generate_types descr tot (i + 1) ds (Generate_types descr tot i [d] e))"
    by (simp only: text_of_def Generate_types_step [of descr tot i d ds] e_def)
  also have "\<dots> = Buffer (Generate_types descr tot i [d] e)
                   @ text_of (Generate_types descr tot (i + 1) ds)
                       (indent (Generate_types descr tot i [d] e))"
    by (subst Generate_types_text [of descr tot "i + 1" ds]) simp
  also have "\<dots> = text_of (Generate_types descr tot i [d]) ind
                   @ text_of (Generate_types descr tot (i + 1) ds) ind"
    by (subst (1 2) one) (simp add: e_def)
  finally show ?case
    by (simp add: Cons.IH)
qed

lemma Generate_ordered:
  "Generate Unmarshal gCtx doc opts g =
     (case getOptions Unmarshal doc opts of
        Panic \<Rightarrow> Panic
      | Return (Inl oerr) \<Rightarrow>
          Return (Some \<lparr>DocName = doc_Name doc, GenName = ''go'', Msg = oerr\<rparr>,
                  \<lparr>Buffer = [], indent = []\<rparr>, [])
      | Return (Inr gOpts) \<Rightarrow>
          (case Generate_schema (doc_Schema doc)
                  \<lparr>Buffer =
                     ''package '' @ Package gOpts @ [NL, NL] @
                     ''import \"github.com/graphql-go/graphql\"'' @ [NL, NL] @
                     (if doc_Schema doc \<noteq> None then ''var Schema graphql.Schema'' @ [NL, NL] else []) @
                     concat (map (\<lambda>(k, d).
                                    text_of (Generate_types (Descriptions gOpts)
                                               (int (length (doc_Types doc)) - 1) k [d]) [])
                               (indexed 0 (doc_Types doc))),
                   indent = []\<rparr> of
             Panic \<Rightarrow> Panic
           | Return g \<Rightarrow> Generate_output gCtx doc g))"
proof -
  have types: "Generate_types descr tot 0 ds \<lparr>Buffer = b, indent = []\<rparr> =
      \<lparr>Buffer = b @ concat (map (\<lambda>(k, d). text_of (Generate_types descr tot k [d]) []) (indexed 0 ds)),
       indent = []\<rparr>" for descr tot ds b
  proof -
    have "Generate_types descr tot 0 ds \<lparr>Buffer = b, indent = []\<rparr> =
            \<lparr>Buffer = b @ text_of (Generate_types descr tot 0 ds) [], indent = []\<rparr>"
      by (subst Generate_types_text) simp
    then show ?thesis
      by (simp only: Generate_types_order [of descr tot 0 ds "[]"])
  qed
  have header: "writeHeader p \<lparr>Buffer = [], indent = []\<rparr> =
      \<lparr>Buffer = ''package '' @ p @ [NL, NL] @ ''import \"github.com/graphql-go/graphql\"'' @ [NL, NL],
       indent = []\<rparr>" for p
    unfolding writeHeader_def Let_def by (simp add: wprims)
  have var: "P [] (P [A_string ''var Schema graphql.Schema''] \<lparr>Buffer = b, indent = []\<rparr>) =
      \<lparr>Buffer = b @ ''var Schema graphql.Schema'' @ [NL, NL], indent = []\<rparr>" for b
    by (simp add: wprims)
  show ?thesis
  proof (cases "getOptions Unmarshal doc opts")
    case Panic
    then show ?thesis by (simp add: Generate_def)
  next
    case (Return r)
    show ?thesis
    proof (cases r)
      case (Inl oerr)
      with Return show ?thesis
        by (simp add: Generate_def Reset_eq wrap_error_def)
    next
      case (Inr gOpts)
      show ?thesis
      proof (cases "doc_Schema doc")
        case None
        with Return Inr show ?thesis
          unfolding Generate_def Let_def Reset_eq
          by (simp add: header types)
      next
        case (Some decl)
        with Return Inr show ?thesis
          unfolding Generate_def Let_def Reset_eq
          by (simp add: header var types)
      qed
    qed
  qed
qed

lemma generateObject_interfaces_concat:
  "text_of (generateObject_interfaces intfs) ind =
     concat (map (\<lambda>intf. ind @ Name intf @ ''Type,'' @ [NL]) intfs)"
  by (simp only: generateObject_interfaces_order [of intfs ind] generateObject_interfaces_single)

lemma generateUnion_members_concat:
  "text_of (generateUnion_members mems) ind =
     concat (map (\<lambda>mem. ind @ Name mem @ ''Type,'' @ [NL]) mems)"
  by (simp only: generateUnion_members_order [of mems ind] generateUnion_members_single)

lemma generateDirective_locs_concat:
  "text_of (generateDirective_locs locs) ind =
     concat (map (\<lambda>loc. ind @ DQ # Loc loc @ ''\",'' @ [NL]) locs)"
  by (simp only: generateDirective_locs_order [of locs ind] generateDirective_locs_single)

lemma generateObject_args_single:
  "text_of (generateObject_args descr [a]) ind =
     ind @ DQ # Name (iv_Name a) @ ''\": &graphql.ArgumentConfig{\<newline>'' @
     ind @ TAB # ''Type: '' @ text_of (printType (argType (iv_Type a))) (ind @ [TAB]) @ '',\<newline>'' @
     (case iv_Default a of
        None \<Rightarrow> []
      | Some d \<Rightarrow> ind @ TAB # ''DefaultValue: '' @ text_of (printVal (defType d)) (ind @ [TAB]) @ '',\<newline>'') @
     text_of (printDescr_if (iv_Doc a) descr) (ind @ [TAB]) @
     ind @ ''},\<newline>''"
  apply (subst text_of_def [of "generateObject_args descr [a]"])
  unfolding generateObject_args.simps Let_def
  by (cases "iv_Default a") (simp_all add: wprims printType_text printVal_text printDescr_if_text)

lemma generateDirective_args_single:
  "text_of (generateDirective_args descr [a]) ind =
     ind @ DQ # Name (iv_Name a) @ ''\": &graphql.ArgumentConfig{\<newline>'' @
     ind @ TAB # ''Type: '' @ text_of (printType (argType (iv_Type a))) (ind @ [TAB]) @ '',\<newline>'' @
     (case iv_Default a of
        None \<Rightarrow> []
      | Some d \<Rightarrow> ind @ TAB # ''DefaultValue: '' @ text_of (printVal (defType d)) (ind @ [TAB]) @ '',\<newline>'') @
     text_of (printDescr_if (iv_Doc a) descr) (ind @ [TAB]) @
     ind @ ''},\<newline>''"
  apply (subst text_of_def [of "generateDirective_args descr [a]"])
  unfolding generateDirective_args.simps Let_def
  by (cases "iv_Default a") (simp_all add: wprims printType_text printVal_text printDescr_if_text)

lemma generateInterface_args_single:
  "text_of (generateInterface_args descr [a]) ind =
     ind @ DQ # Name (iv_Name a) @ ''\": &graphql.ArgumentConfig{\<newline>'' @
     ind @ TAB # ''Type: '' @ text_of (printType (argType (iv_Type a))) (ind @ [TAB]) @
     (case iv_Default a of
        None \<Rightarrow> []
      | Some d \<Rightarrow> NL # ind @ TAB # ''DefaultValue: '' @ text_of (printVal (defType d)) (ind @ [TAB]) @ '',\<newline>'') @
     text_of (printDescr_if (iv_Doc a) descr) (ind @ [TAB]) @
     ind @ ''},\<newline>''"
  apply (subst text_of_def [of "generateInterface_args descr [a]"])
  unfolding generateInterface_args.simps Let_def
  by (cases "iv_Default a") (simp_all add: wprims printType_text printVal_text printDescr_if_text)

lemma generateInput_fields_single:
  "text_of (generateInput_fields descr [a]) ind =
     ind @ DQ # Name (iv_Name a) @ ''\": &graphql.InputObjectFieldConfig{\<newline>'' @
     ind @ TAB # ''Type: '' @ text_of (printType (argType (iv_Type a))) (ind @ [TAB]) @ '',\<newline>'' @
     (case iv_Default a of
        None \<Rightarrow> []
      | Some d \<Rightarrow> ind @ TAB # ''DefaultValue: '' @ text_of (printVal (defType d)) (ind @ [TAB]) @ '',\<newline>'') @
     text_of (printDescr_if (iv_Doc a) descr) ind @
     ind @ ''},\<newline>''"
  apply (subst text_of_def [of "generateInput_fields descr [a]"])
  unfolding generateInput_fields.simps Let_def
  by (cases "iv_Default a") (simp_all add: wprims printType_text printVal_text printDescr_if_text)

lemma generateEnum_values_single:
  "text_of (generateEnum_values descr [v]) ind =
     ind @ DQ # Name (f_Name v) @ ''\": &graphql.EnumValueConfig{\<newline>'' @
     ind @ TAB # ''Value: \"'' @ Name (f_Name v) @ ''\",\<newline>'' @
     text_of (printDescr_if (f_Doc v) descr) (ind @ [TAB]) @
     ind @ ''},\<newline>''"
  apply (subst text_of_def [of "generateEnum_values descr [v]"])
  unfolding generateEnum_values.simps Let_def
  by (simp add: wprims printDescr_if_text)

lemma generateObject_fields_single:
  "text_of (generateObject_fields descr [f]) ind =
     ind @ DQ # Name (f_Name f) @ ''\": &graphql.Field{\<newline>'' @
     ind @ TAB # ''Type: '' @ text_of (printType (fieldType (f_Type f))) (ind @ [TAB]) @ '',\<newline>'' @
     (case f_Args f of
        None \<Rightarrow> []
      | Some args \<Rightarrow>
          ind @ TAB # ''Args: graphql.FieldConfigArgument{\<newline>'' @
          text_of (generateObject_args descr args) (ind @ [TAB, TAB]) @
          ind @ TAB # ''},\<newline>'') @
     ind @ TAB # ''Resolve: func(p graphql.ResolveParams) (interface{}, error) { return nil, nil }, // TODO\<newline>'' @
     text_of (printDescr_if (f_Doc f) descr) (ind @ [TAB]) @
     ind @ ''},\<newline>''"
  apply (subst text_of_def [of "generateObject_fields descr [f]"])
  unfolding generateObject_fields.simps Let_def
  by (cases "f_Args f")
     (simp_all add: wprims printType_text printDescr_if_text generateObject_args_text)

lemma generateInterface_fields_single:
  "text_of (generateInterface_fields descr [f]) ind =
     ind @ DQ # Name (f_Name f) @ ''\": &graphql.Field{\<newline>'' @
     ind @ TAB # ''Type: '' @ text_of (printType (fieldType (f_Type f))) (ind @ [TAB]) @ '',\<newline>'' @
     (case f_Args f of
        None \<Rightarrow> []
      | Some args \<Rightarrow>
          ind @ TAB # ''Args: graphql.FieldConfigArgument{\<newline>'' @
          text_of (generateInterface_args descr args) (ind @ [TAB, TAB]) @
          ind @ TAB # ''},\<newline>'') @
     text_of (printDescr_if (f_Doc f) descr) (ind @ [TAB]) @
     ind @ ''},\<newline>''"
  apply (subst text_of_def [of "generateInterface_fields descr [f]"])
  unfolding generateInterface_fields.simps Let_def
  by (cases "f_Args f")
     (simp_all add: wprims printType_text printDescr_if_text generateInterface_args_text)

lemma generateObject_lists:
  "text_of (generateObject name descr doc obj) ind =
     ind @ ''NewObject(graphql.ObjectConfig{\<newline>'' @
     ind @ TAB # ''Name: \"'' @ name @ ''\",\<newline>'' @
     (if length (Interfaces obj) = 1 then
        ind @ TAB # ''Interfaces: []*graphql.Interface{ '' @ Name (Interfaces obj ! 0) @ ''Type },\<newline>''
      else []) @
     (if length (Interfaces obj) > 1 then
        ind @ TAB # ''Interfaces: []*graphql.Interface{\<newline>'' @
        concat (map (\<lambda>intf. ind @ [TAB, TAB] @ Name intf @ ''Type,'' @ [NL]) (Interfaces obj)) @
        ind @ TAB # ''},\<newline>''
      else []) @
     ind @ TAB # ''Fields: graphql.Fields{\<newline>'' @
     text_of (generateObject_fields descr (obj_Fields obj)) (ind @ [TAB, TAB]) @
     ind @ TAB # ''},\<newline>'' @
     text_of (printDescr_if doc descr) (ind @ [TAB]) @
     ind @ ''})\<newline>''"
  apply (subst text_of_def [of "generateObject name descr doc obj"])
  unfolding generateObject_def Let_def
  by (cases "Interfaces obj" rule: length_cases)
     (simp_all add: wprims printDescr_if_text generateObject_interfaces_text
        generateObject_interfaces_concat generateObject_fields_text)

lemma generateInterface_lists:
  "text_of (generateInterface name descr doc intf) ind =
     ind @ ''NewInterface(graphql.InterfaceConfig{\<newline>'' @
     ind @ TAB # ''Name: \"'' @ name @ ''\",\<newline>'' @
     ind @ TAB # ''Fields: graphql.Fields{\<newline>'' @
     text_of (generateInterface_fields descr (inter_Fields intf)) (ind @ [TAB, TAB]) @
     ind @ TAB # ''},\<newline>'' @
     text_of (printDescr_if doc descr) (ind @ [TAB]) @
     ind @ ''})\<newline>''"
  apply (subst text_of_def [of "generateInterface name descr doc intf"])
  unfolding generateInterface_def Let_def
  by (simp add: wprims printDescr_if_text generateInterface_fields_text)

lemma generateUnion_lists:
  "text_of (generateUnion name descr doc un) ind =
     ind @ ''NewUnion(graphql.UnionConfig{\<newline>'' @
     ind @ TAB # ''Name: \"'' @ name @ ''\",\<newline>'' @
     (if length (Members un) = 1 then ind @ TAB # ''Types: []*graphql.Object{ Type },\<newline>'' else []) @
     (if length (Members un) > 1 then
        ind @ TAB # ''Types: []*graphql.Object{\<newline>'' @
        concat (map (\<lambda>mem. ind @ [TAB, TAB] @ Name mem @ ''Type,'' @ [NL]) (Members un)) @
        ind @ TAB # ''},\<newline>''
      else []) @
     ind @ TAB # ''ResolveType: func(p graphql.ResolveParams) *graphql.Object { return nil }, // TODO\<newline>'' @
     text_of (printDescr_if doc descr) (ind @ [TAB]) @
     ind @ ''})\<newline>''"
  apply (subst text_of_def [of "generateUnion name descr doc un"])
  unfolding generateUnion_def Let_def
  by (cases "Members un" rule: length_cases)
     (simp_all add: wprims printDescr_if_text generateUnion_members_text generateUnion_members_concat)

lemma generateEnum_lists:
  "text_of (generateEnum name descr doc enum) ind =
     ind @ ''NewEnum(graphql.EnumConfig{\<newline>'' @
     ind @ TAB # ''Name: \"'' @ name @ ''\",\<newline>'' @
     text_of (printDescr_if doc descr) (ind @ [TAB]) @
     ind @ TAB # ''Values: graphql.EnumValueConfigMap{\<newline>'' @
     text_of (generateEnum_values descr (Values enum)) (ind @ [TAB, TAB]) @
     ind @ TAB # ''},\<newline>'' @
     ind @ ''})\<newline>''"
  apply (subst text_of_def [of "generateEnum name descr doc enum"])
  unfolding generateEnum_def Let_def
  by (simp add: wprims printDescr_if_text generateEnum_values_text)

lemma generateInput_lists:
  "text_of (generateInput name descr doc inp) ind =
     ind @ ''NewInputObject(graphql.InputObjectConfig{\<newline>'' @
     ind @ TAB # ''Name: \"'' @ name @ ''\",\<newline>'' @
     ind @ TAB # ''Fields: graphql.InputObjectFieldConfigMap{\<newline>'' @
     text_of (generateInput_fields descr (input_Fields inp)) (ind @ [TAB, TAB]) @
     ind @ TAB # ''},\<newline>'' @
     text_of (printDescr_if doc descr) (ind @ [TAB]) @
     ind @ ''})\<newline>''"
  apply (subst text_of_def [of "generateInput name descr doc inp"])
  unfolding generateInput_def Let_def
  by (simp add: wprims printDescr_if_text generateInput_fields_text)

lemma generateDirective_lists:
  "text_of (generateDirective name descr doc directive) ind =
     ind @ ''NewDirective(graphql.DirectiveConfig{\<newline>'' @
     ind @ TAB # ''Name: \"'' @ name @ ''\",\<newline>'' @
     (case doc of
        None \<Rightarrow> []
      | Some d \<Rightarrow>
          if descr \<and> 0 < length (Text d) then
            ind @ TAB # ''Description: \"'' @ take (length (Text d) - 1) (Text d) @ ''\",\<newline>''
          else []) @
     (if length (Locs directive) = 1 then
        ind @ TAB # ''Locations: []string{ '' @ Loc (Locs directive ! 0) @ '' }\<newline>''
      else []) @
     (if length (Locs directive) > 1 then
        ind @ TAB # ''Locations: []string{\<newline>'' @
        concat (map (\<lambda>loc. ind @ [TAB, TAB] @ DQ # Loc loc @ ''\",'' @ [NL]) (Locs directive)) @
        ind @ TAB # ''},\<newline>''
      else []) @
     (case dir_Args directive of
        None \<Rightarrow> []
      | Some args \<Rightarrow>
          ind @ TAB # ''Args: graphql.FieldConfigArgument{\<newline>'' @
          text_of (generateDirective_args descr args) (ind @ [TAB, TAB]) @
          ind @ TAB # ''},\<newline>'') @
     ind @ ''})\<newline>''"
  apply (subst text_of_def [of "generateDirective name descr doc directive"])
  unfolding generateDirective_def Let_def
  apply (cases "Locs directive" rule: length_cases; cases "dir_Args directive"; cases doc; cases descr;
      cases "Text (the doc) = []")
  apply (simp_all add: wprims generateDirective_locs_text generateDirective_locs_concat
        generateDirective_args_text)
  by (simp_all cong del: text_of_weak_cong)

lemma generateScalar_lists:
  "text_of (generateScalar name descr doc) ind =
     ind @ ''NewScalar(graphql.ScalarConfig{\<newline>'' @
     ind @ TAB # ''Name: \"'' @ name @ ''\",\<newline>'' @
     (case doc of
        None \<Rightarrow> []
      | Some d \<Rightarrow>
          if descr \<and> 0 < length (Text d) then
            ind @ TAB # ''Description: \"'' @ take (length (Text d) - 1) (Text d) @ ''\",\<newline>''
          else []) @
     ind @ TAB # ''Serialize: func(value interface{}) interface{} { return nil }, // TODO\<newline>'' @
     ind @ ''})\<newline>''"
  apply (subst text_of_def [of "generateScalar name descr doc"])
  unfolding generateScalar_def Let_def
  by (cases doc; cases descr; cases "Text (the doc) = []") (simp_all add: wprims)

lemma Generate_types_single:
  "text_of (Generate_types descr tot k [d]) ind =
     (case td_Spec d of
        TypeDecl_TypeExtSpec \<Rightarrow> []
      | TypeDecl_TypeSpec ts \<Rightarrow>
          (case ts_Type ts of
             TypeSpec_Schema sch \<Rightarrow> []
           | _ \<Rightarrow>
               ''var '' @ Name (ts_Name ts) @ ''Type = graphql.'' @
               (case ts_Type ts of
                  TypeSpec_Schema sch \<Rightarrow> []
                | TypeSpec_Scalar \<Rightarrow> text_of (generateScalar (Name (ts_Name ts)) descr (td_Doc d)) ind
                | TypeSpec_Object obj \<Rightarrow> text_of (generateObject (Name (ts_Name ts)) descr (td_Doc d) obj) ind
                | TypeSpec_Interface intf \<Rightarrow> text_of (generateInterface (Name (ts_Name ts)) descr (td_Doc d) intf) ind
                | TypeSpec_Union un \<Rightarrow> text_of (generateUnion (Name (ts_Name ts)) descr (td_Doc d) un) ind
                | TypeSpec_Enum enum \<Rightarrow> text_of (generateEnum (Name (ts_Name ts)) descr (td_Doc d) enum) ind
                | TypeSpec_Input inp \<Rightarrow> text_of (generateInput (Name (ts_Name ts)) descr (td_Doc d) inp) ind
                | TypeSpec_Directive directive \<Rightarrow>
                    text_of (generateDirective (Name (ts_Name ts)) descr (td_Doc d) directive) ind) @
               (if k \<noteq> tot then ind @ [NL] else [])))"
proof (cases "td_Spec d")
  case TypeDecl_TypeExtSpec
  then show ?thesis by (simp add: text_of_def)
next
  case (TypeDecl_TypeSpec ts)
  then show ?thesis
    apply (subst text_of_def [of "Generate_types descr tot k [d]"])
    unfolding Generate_types.simps Let_def
    by (cases "ts_Type ts"; cases "k = tot")
       (simp_all add: wprims generateScalar_text generateObject_text generateInterface_text
          generateUnion_text generateEnum_text generateInput_text generateDirective_text)
qed

lemma Generate_rootOps_step:
  "Generate_rootOps (op # ops) g =
     (case f_Type op of
        Some (Field_Ident ident) \<Rightarrow>
          Generate_rootOps ops
            (g\<lparr>Buffer := Buffer g @ indent g @
                 (if Name (f_Name op) = ''query'' then ''Query: ''
                  else if Name (f_Name op) = ''mutation'' then ''Mutation: ''
                  else if Name (f_Name op) = ''subscription'' then ''Subscription: ''
                  else []) @
                 Name ident @ ''Type,'' @ [NL]\<rparr>)
      | _ \<Rightarrow> Panic)"
  unfolding Generate_rootOps.simps Let_def
  by (simp add: wprims split: option.splits Field_Type.splits)

lemma Generate_rootOps_indent:
  "Generate_rootOps ops g = Return g' \<Longrightarrow> indent g' = indent g"
proof (induction ops arbitrary: g)
  case Nil
  then show ?case by simp
next
  case (Cons op ops)
  from Cons.prems show ?case
    unfolding Generate_rootOps_step
    by (auto split: option.splits Field_Type.splits dest!: Cons.IH)
qed

lemma Generate_schema_block:
  "Generate_schema schema g =
     (case schema of
        None \<Rightarrow> Return g
      | Some decl \<Rightarrow>
          (case td_Spec decl of
             TypeDecl_TypeExtSpec \<Rightarrow> Panic
           | TypeDecl_TypeSpec ts \<Rightarrow>
               (case ts_Type ts of
                  TypeSpec_Schema sch \<Rightarrow>
                    (case Generate_rootOps (RootOps sch)
                            \<lparr>Buffer = Buffer g @ indent g @ [NL] @
                               indent g @ ''func init() {\<newline>'' @
                               indent g @ TAB # ''var err error\<newline>'' @
                               indent g @ TAB # ''Schema, err = graphql.NewSchema(graphql.SchemaConfig{\<newline>'',
                             indent = indent g @ [TAB, TAB]\<rparr> of
                       Panic \<Rightarrow> Panic
                     | Return g' \<Rightarrow>
                         Return \<lparr>Buffer = Buffer g' @
                                   indent g @ TAB # ''})\<newline>'' @
                                   indent g @ TAB # ''if err != nil {\<newline>'' @
                                   indent g @ TAB # TAB # ''panic(err)\<newline>'' @
                                   indent g @ TAB # ''}\<newline>'' @
                                   indent g @ ''}\<newline>'',
                                 indent = indent g\<rparr>)
                | _ \<Rightarrow> Panic)))"
proof -
  let ?g0 = "\<lparr>Buffer = Buffer g @ indent g @ [NL] @
                     indent g @ ''func init() {\<newline>'' @
                     indent g @ TAB # ''var err error\<newline>'' @
                     indent g @ TAB # ''Schema, err = graphql.NewSchema(graphql.SchemaConfig{\<newline>'',
                   indent = indent g @ [TAB, TAB]\<rparr>"
  have start: "In (P [A_string ''Schema, err = graphql.NewSchema(graphql.SchemaConfig{'']
                 (P [A_string ''var err error''] (In (P [A_string ''func init() {''] (P [] g))))) = ?g0"
    by (cases g) (simp add: wprims)
  have finish: "P [A_string ''}''] (Out (P [A_string ''}''] (Out (P [A_string ''panic(err)'']
                  (In (P [A_string ''if err != nil {''] (P [A_string ''})''] (Out g')))))))) =
                \<lparr>Buffer = Buffer g' @
                   indent g @ TAB # ''})\<newline>'' @
                   indent g @ TAB # ''if err != nil {\<newline>'' @
                   indent g @ TAB # TAB # ''panic(err)\<newline>'' @
                   indent g @ TAB # ''}\<newline>'' @
                   indent g @ ''}\<newline>'',
                 indent = indent g\<rparr>"
    if "indent g' = indent g @ [TAB, TAB]" for g'
    using that by (cases g') (simp add: wprims)
  show ?thesis
  proof (cases schema)
    case None
    then show ?thesis by (simp add: Generate_schema_def)
  next
    case (Some decl)
    show ?thesis
    proof (cases "td_Spec decl")
      case TypeDecl_TypeExtSpec
      with Some show ?thesis unfolding Generate_schema_def Let_def by simp
    next
      case (TypeDecl_TypeSpec ts)
      show ?thesis
      proof (cases "ts_Type ts")
        case (TypeSpec_Schema sch)
        show ?thesis
        proof (cases "Generate_rootOps (RootOps sch) ?g0")
          case Panic
          have "Generate_schema schema g = Panic"
            unfolding Generate_schema_def Let_def start
            by (simp add: Some TypeDecl_TypeSpec TypeSpec_Schema Panic del: append.simps append_assoc)
          then show ?thesis
            by (simp add: Some TypeDecl_TypeSpec TypeSpec_Schema Panic del: append.simps append_assoc)
        next
          case (Return g')
          have ind: "indent g' = indent g @ [TAB, TAB]"
            using Generate_rootOps_indent [OF Return] by simp
          have "Generate_schema schema g =
                  Return (P [A_string ''}''] (Out (P [A_string ''}''] (Out (P [A_string ''panic(err)'']
                    (In (P [A_string ''if err != nil {''] (P [A_string ''})''] (Out g')))))))))"
            unfolding Generate_schema_def Let_def start
            by (simp add: Some TypeDecl_TypeSpec TypeSpec_Schema Return del: append.simps append_assoc)
          then show ?thesis
            unfolding finish [OF ind]
            by (simp add: Some TypeDecl_TypeSpec TypeSpec_Schema Return del: append.simps append_assoc)
        qed
      qed (use Some TypeDecl_TypeSpec in \<open>unfold Generate_schema_def Let_def, simp_all\<close>)
    qed
  qed
qed

lemma Generate_output_accepting:
  "Generate_output sink_accepting doc \<lparr>Buffer = c # b, indent = ind\<rparr> =
     Return (None, \<lparr>Buffer = [], indent = ind\<rparr>,
             [Opened (take (length (doc_Name doc) - length (Ext (doc_Name doc))) (doc_Name doc) @ ''.go''),
              Written (c # b), Closed])"
  by (simp add: Generate_output_def sink_accepting_def WriteTo_def wrap_error_def)

lemma printType_text_render:
  "text_of (printType t) ind = (case TypeRef_any t of None \<Rightarrow> [] | Some r \<Rightarrow> render r)"
  by (simp add: text_of_def printType_render)

lemma printDescr_if_explicit:
  "text_of (printDescr_if dg descr) ind =
     (case dg of
        None \<Rightarrow> []
      | Some d \<Rightarrow>
          if descr then
            (if 0 < length (Text d) then
               ind @ ''Description: \"'' @ take (length (Text d) - 1) (Text d) @ ''\",''
             else []) @ [NL]
          else [])"
  by (simp add: text_of_def printDescr_if_def printDescr_def Let_def wprims split: option.splits)

lemma Generate_example:
  "Generate (Unmarshal_descriptions True) sink_accepting doc_example ''{\"descriptions\": true}'' g =
   Return (None, \<lparr>Buffer = [], indent = []\<rparr>, [Opened ''example.go'', Written (''package main\<newline>'' @
   ''\<newline>'' @
   ''import \"github.com/graphql-go/graphql\"\<newline>'' @
   ''\<newline>'' @
   ''var Schema graphql.Schema\<newline>'' @
   ''\<newline>'' @
   ''var QueryType = graphql.NewObject(graphql.ObjectConfig{\<newline>'' @
   TAB # ''Name: \"Query\",\<newline>'' @
   TAB # ''Fields: graphql.Fields{\<newline>'' @
   TAB # TAB # ''\"hello\": &graphql.Field{\<newline>'' @
   TAB # TAB # TAB # ''Type: graphql.String,\<newline>'' @
   TAB # TAB # TAB # ''Resolve: func(p graphql.ResolveParams) (interface{}, error) { return nil, nil }, // TODO\<newline>'' @
   TAB # TAB # ''},\<newline>'' @
   TAB # ''},\<newline>'' @
   TAB # ''Description: \"Query represents the queries this example provides.\",\<newline>'' @
   ''})\<newline>'' @
   ''\<newline>'' @
   ''func init() {\<newline>'' @
   TAB # ''var err error\<newline>'' @
   TAB # ''Schema, err = graphql.NewSchema(graphql.SchemaConfig{\<newline>'' @
   TAB # TAB # ''Query: QueryType,\<newline>'' @
   TAB # ''})\<newline>'' @
   TAB # ''if err != nil {\<newline>'' @
   TAB # TAB # ''panic(err)\<newline>'' @
   TAB # ''}\<newline>'' @
   ''}\<newline>''), Closed])"
  by (simp add: Generate_ordered getOptions_def Unmarshal_descriptions_def doc_example_def
      decl_Query_def decl_schema_def Generate_types_single generateObject_lists
      generateObject_fields_single printType_text_render printDescr_if_explicit
      Generate_schema_block Generate_rootOps_step sink_accepting_def Generate_output_def
      WriteTo_def wrap_error_def Ext_def wprims Let_def
      cong del: text_of_weak_cong)

text \<open>
  C9. Generate starts from the reset generator, so its result (the error, the generator
  left behind and everything handed to the sink) is the same for every generator it is
  called on: whatever an earlier run has left in the buffer or the indentation, two runs
  on the same document and options agree byte for byte. The text it assembles is the
  header, then the texts of the declarations in the order of the document, then the
  schema block with the root operations in their order; an accepting sink receives that
  text in one write. The text of a declaration holds its interfaces, fields, members,
  values, locations and arguments in the order of their lists, and so does the text of a
  field for its arguments: each list is rendered as the concatenation of the texts of its
  elements, from the first to the last. On the document of the repository's example,
  every run hands the sink the expected text of that example.
\<close>

theorem Generate_deterministic_declared_order:
  "Reset g = \<lparr>Buffer = [], indent = []\<rparr>
   \<and> Generate Unmarshal gCtx doc opts g = Generate Unmarshal gCtx doc opts g'
   \<and> Generate Unmarshal gCtx doc opts g =
     (case getOptions Unmarshal doc opts of
        Panic \<Rightarrow> Panic
      | Return (Inl oerr) \<Rightarrow>
          Return (Some \<lparr>DocName = doc_Name doc, GenName = ''go'', Msg = oerr\<rparr>,
                  \<lparr>Buffer = [], indent = []\<rparr>, [])
      | Return (Inr gOpts) \<Rightarrow>
          (case Generate_schema (doc_Schema doc)
                  \<lparr>Buffer =
                     ''package '' @ Package gOpts @ [NL, NL] @
                     ''import \"github.com/graphql-go/graphql\"'' @ [NL, NL] @
                     (if doc_Schema doc \<noteq> None then ''var Schema graphql.Schema'' @ [NL, NL] else []) @
                     concat (map (\<lambda>(k, d).
                                    text_of (Generate_types (Descriptions gOpts)
                                               (int (length (doc_Types doc)) - 1) k [d]) [])
                               (indexed 0 (doc_Types doc))),
                   indent = []\<rparr> of
             Panic \<Rightarrow> Panic
           | Return g \<Rightarrow> Generate_output gCtx doc g))
   \<and> text_of (Generate_types descr tot i ds) ind =
     concat (map (\<lambda>(k, d). text_of (Generate_types descr tot k [d]) ind) (indexed i ds))
   \<and> text_of (Generate_types descr tot k [decl]) ind =
     (case td_Spec decl of
        TypeDecl_TypeExtSpec \<Rightarrow> []
      | TypeDecl_TypeSpec ts \<Rightarrow>
          (case ts_Type ts of
             TypeSpec_Schema sch \<Rightarrow> []
           | _ \<Rightarrow>
               ''var '' @ Name (ts_Name ts) @ ''Type = graphql.'' @
               (case ts_Type ts of
                  TypeSpec_Schema sch \<Rightarrow> []
                | TypeSpec_Scalar \<Rightarrow> text_of (generateScalar (Name (ts_Name ts)) descr (td_Doc decl)) ind
                | TypeSpec_Object obj \<Rightarrow> text_of (generateObject (Name (ts_Name ts)) descr (td_Doc decl) obj) ind
                | TypeSpec_Interface intf \<Rightarrow> text_of (generateInterface (Name (ts_Name ts)) descr (td_Doc decl) intf) ind
                | TypeSpec_Union un \<Rightarrow> text_of (generateUnion (Name (ts_Name ts)) descr (td_Doc decl) un) ind
                | TypeSpec_Enum enum \<Rightarrow> text_of (generateEnum (Name (ts_Name ts)) descr (td_Doc decl) enum) ind
                | TypeSpec_Input inp \<Rightarrow> text_of (generateInput (Name (ts_Name ts)) descr (td_Doc decl) inp) ind
                | TypeSpec_Directive directive \<Rightarrow>
                    text_of (generateDirective (Name (ts_Name ts)) descr (td_Doc decl) directive) ind) @
               (if k \<noteq> tot then ind @ [NL] else [])))
   \<and> Generate_schema schema g =
     (case schema of
        None \<Rightarrow> Return g
      | Some decl \<Rightarrow>
          (case td_Spec decl of
             TypeDecl_TypeExtSpec \<Rightarrow> Panic
           | TypeDecl_TypeSpec ts \<Rightarrow>
               (case ts_Type ts of
                  TypeSpec_Schema sch \<Rightarrow>
                    (case Generate_rootOps (RootOps sch)
                            \<lparr>Buffer = Buffer g @ indent g @ [NL] @
                               indent g @ ''func init() {\<newline>'' @
                               indent g @ TAB # ''var err error\<newline>'' @
                               indent g @ TAB # ''Schema, err = graphql.NewSchema(graphql.SchemaConfig{\<newline>'',
                             indent = indent g @ [TAB, TAB]\<rparr> of
                       Panic \<Rightarrow> Panic
                     | Return g' \<Rightarrow>
                         Return \<lparr>Buffer = Buffer g' @
                                   indent g @ TAB # ''})\<newline>'' @
                                   indent g @ TAB # ''if err != nil {\<newline>'' @
                                   indent g @ TAB # TAB # ''panic(err)\<newline>'' @
                                   indent g @ TAB # ''}\<newline>'' @
                                   indent g @ ''}\<newline>'',
                                 indent = indent g\<rparr>)
                | _ \<Rightarrow> Panic)))
   \<and> Generate_rootOps (op # ops) g =
     (case f_Type op of
        Some (Field_Ident ident) \<Rightarrow>
          Generate_rootOps ops
            (g\<lparr>Buffer := Buffer g @ indent g @
                 (if Name (f_Name op) = ''query'' then ''Query: ''
                  else if Name (f_Name op) = ''mutation'' then ''Mutation: ''
                  else if Name (f_Name op) = ''subscription'' then ''Subscription: ''
                  else []) @
                 Name ident @ ''Type,'' @ [NL]\<rparr>)
      | _ \<Rightarrow> Panic)
   \<and> Generate_output sink_accepting doc \<lparr>Buffer = c # b, indent = ind\<rparr> =
     Return (None, \<lparr>Buffer = [], indent = ind\<rparr>,
             [Opened (take (length (doc_Name doc) - length (Ext (doc_Name doc))) (doc_Name doc) @ ''.go''),
              Written (c # b), Closed])
   \<and> text_of (generateScalar name descr dg) ind =
     ind @ ''NewScalar(graphql.ScalarConfig{\<newline>'' @
     ind @ TAB # ''Name: \"'' @ name @ ''\",\<newline>'' @
     (case dg of
        None \<Rightarrow> []
      | Some d \<Rightarrow>
          if descr \<and> 0 < length (Text d) then
            ind @ TAB # ''Description: \"'' @ take (length (Text d) - 1) (Text d) @ ''\",\<newline>''
          else []) @
     ind @ TAB # ''Serialize: func(value interface{}) interface{} { return nil }, // TODO\<newline>'' @
     ind @ ''})\<newline>''
   \<and> text_of (generateObject name descr dg obj) ind =
     ind @ ''NewObject(graphql.ObjectConfig{\<newline>'' @
     ind @ TAB # ''Name: \"'' @ name @ ''\",\<newline>'' @
     (if length (Interfaces obj) = 1 then
        ind @ TAB # ''Interfaces: []*graphql.Interface{ '' @ Name (Interfaces obj ! 0) @ ''Type },\<newline>''
      else []) @
     (if length (Interfaces obj) > 1 then
        ind @ TAB # ''Interfaces: []*graphql.Interface{\<newline>'' @
        concat (map (\<lambda>intf. ind @ [TAB, TAB] @ Name intf @ ''Type,'' @ [NL]) (Interfaces obj)) @
        ind @ TAB # ''},\<newline>''
      else []) @
     ind @ TAB # ''Fields: graphql.Fields{\<newline>'' @
     text_of (generateObject_fields descr (obj_Fields obj)) (ind @ [TAB, TAB]) @
     ind @ TAB # ''},\<newline>'' @
     text_of (printDescr_if dg descr) (ind @ [TAB]) @
     ind @ ''})\<newline>''
   \<and> text_of (generateInterface name descr dg intf) ind =
     ind @ ''NewInterface(graphql.InterfaceConfig{\<newline>'' @
     ind @ TAB # ''Name: \"'' @ name @ ''\",\<newline>'' @
     ind @ TAB # ''Fields: graphql.Fields{\<newline>'' @
     text_of (generateInterface_fields descr (inter_Fields intf)) (ind @ [TAB, TAB]) @
     ind @ TAB # ''},\<newline>'' @
     text_of (printDescr_if dg descr) (ind @ [TAB]) @
     ind @ ''})\<newline>''
   \<and> text_of (generateUnion name descr dg un) ind =
     ind @ ''NewUnion(graphql.UnionConfig{\<newline>'' @
     ind @ TAB # ''Name: \"'' @ name @ ''\",\<newline>'' @
     (if length (Members un) = 1 then ind @ TAB # ''Types: []*graphql.Object{ Type },\<newline>'' else []) @
     (if length (Members un) > 1 then
        ind @ TAB # ''Types: []*graphql.Object{\<newline>'' @
        concat (map (\<lambda>mem. ind @ [TAB, TAB] @ Name mem @ ''Type,'' @ [NL]) (Members un)) @
        ind @ TAB # ''},\<newline>''
      else []) @
     ind @ TAB # ''ResolveType: func(p graphql.ResolveParams) *graphql.Object { return nil }, // TODO\<newline>'' @
     text_of (printDescr_if dg descr) (ind @ [TAB]) @
     ind @ ''})\<newline>''
   \<and> text_of (generateEnum name descr dg enum) ind =
     ind @ ''NewEnum(graphql.EnumConfig{\<newline>'' @
     ind @ TAB # ''Name: \"'' @ name @ ''\",\<newline>'' @
     text_of (printDescr_if dg descr) (ind @ [TAB]) @
     ind @ TAB # ''Values: graphql.EnumValueConfigMap{\<newline>'' @
     text_of (generateEnum_values descr (Values enum)) (ind @ [TAB, TAB]) @
     ind @ TAB # ''},\<newline>'' @
     ind @ ''})\<newline>''
   \<and> text_of (generateInput name descr dg inp) ind =
     ind @ ''NewInputObject(graphql.InputObjectConfig{\<newline>'' @
     ind @ TAB # ''Name: \"'' @ name @ ''\",\<newline>'' @
     ind @ TAB # ''Fields: graphql.InputObjectFieldConfigMap{\<newline>'' @
     text_of (generateInput_fields descr (input_Fields inp)) (ind @ [TAB, TAB]) @
     ind @ TAB # ''},\<newline>'' @
     text_of (printDescr_if dg descr) (ind @ [TAB]) @
     ind @ ''})\<newline>''
   \<and> text_of (generateDirective name descr dg directive) ind =
     ind @ ''NewDirective(graphql.DirectiveConfig{\<newline>'' @
     ind @ TAB # ''Name: \"'' @ name @ ''\",\<newline>'' @
     (case dg of
        None \<Rightarrow> []
      | Some d \<Rightarrow>
          if descr \<and> 0 < length (Text d) then
            ind @ TAB # ''Description: \"'' @ take (length (Text d) - 1) (Text d) @ ''\",\<newline>''
          else []) @
     (if length (Locs directive) = 1 then
        ind @ TAB # ''Locations: []string{ '' @ Loc (Locs directive ! 0) @ '' }\<newline>''
      else []) @
     (if length (Locs directive) > 1 then
        ind @ TAB # ''Locations: []string{\<newline>'' @
        concat (map (\<lambda>loc. ind @ [TAB, TAB] @ DQ # Loc loc @ ''\",'' @ [NL]) (Locs directive)) @
        ind @ TAB # ''},\<newline>''
      else []) @
     (case dir_Args directive of
        None \<Rightarrow> []
      | Some args \<Rightarrow>
          ind @ TAB # ''Args: graphql.FieldConfigArgument{\<newline>'' @
          text_of (generateDirective_args descr args) (ind @ [TAB, TAB]) @
          ind @ TAB # ''},\<newline>'') @
     ind @ ''})\<newline>''
   \<and> text_of (generateObject_fields descr fs) ind = concat (map (\<lambda>f. text_of (generateObject_fields descr [f]) ind) fs)
   \<and> text_of (generateInterface_fields descr fs) ind = concat (map (\<lambda>f. text_of (generateInterface_fields descr [f]) ind) fs)
   \<and> text_of (generateEnum_values descr fs) ind = concat (map (\<lambda>f. text_of (generateEnum_values descr [f]) ind) fs)
   \<and> text_of (generateInput_fields descr ivs) ind = concat (map (\<lambda>a. text_of (generateInput_fields descr [a]) ind) ivs)
   \<and> text_of (generateObject_args descr ivs) ind = concat (map (\<lambda>a. text_of (generateObject_args descr [a]) ind) ivs)
   \<and> text_of (generateInterface_args descr ivs) ind = concat (map (\<lambda>a. text_of (generateInterface_args descr [a]) ind) ivs)
   \<and> text_of (generateDirective_args descr ivs) ind = concat (map (\<lambda>a. text_of (generateDirective_args descr [a]) ind) ivs)
   \<and> text_of (generateObject_fields descr [f]) ind =
     ind @ DQ # Name (f_Name f) @ ''\": &graphql.Field{\<newline>'' @
     ind @ TAB # ''Type: '' @ text_of (printType (fieldType (f_Type f))) (ind @ [TAB]) @ '',\<newline>'' @
     (case f_Args f of
        None \<Rightarrow> []
      | Some args \<Rightarrow>
          ind @ TAB # ''Args: graphql.FieldConfigArgument{\<newline>'' @
          text_of (generateObject_args descr args) (ind @ [TAB, TAB]) @
          ind @ TAB # ''},\<newline>'') @
     ind @ TAB # ''Resolve: func(p graphql.ResolveParams) (interface{}, error) { return nil, nil }, // TODO\<newline>'' @
     text_of (printDescr_if (f_Doc f) descr) (ind @ [TAB]) @
     ind @ ''},\<newline>''
   \<and> text_of (generateInterface_fields descr [f]) ind =
     ind @ DQ # Name (f_Name f) @ ''\": &graphql.Field{\<newline>'' @
     ind @ TAB # ''Type: '' @ text_of (printType (fieldType (f_Type f))) (ind @ [TAB]) @ '',\<newline>'' @
     (case f_Args f of
        None \<Rightarrow> []
      | Some args \<Rightarrow>
          ind @ TAB # ''Args: graphql.FieldConfigArgument{\<newline>'' @
          text_of (generateInterface_args descr args) (ind @ [TAB, TAB]) @
          ind @ TAB # ''},\<newline>'') @
     text_of (printDescr_if (f_Doc f) descr) (ind @ [TAB]) @
     ind @ ''},\<newline>''
   \<and> text_of (generateEnum_values descr [f]) ind =
     ind @ DQ # Name (f_Name f) @ ''\": &graphql.EnumValueConfig{\<newline>'' @
     ind @ TAB # ''Value: \"'' @ Name (f_Name f) @ ''\",\<newline>'' @
     text_of (printDescr_if (f_Doc f) descr) (ind @ [TAB]) @
     ind @ ''},\<newline>''
   \<and> text_of (generateInput_fields descr [a]) ind =
     ind @ DQ # Name (iv_Name a) @ ''\": &graphql.InputObjectFieldConfig{\<newline>'' @
     ind @ TAB # ''Type: '' @ text_of (printType (argType (iv_Type a))) (ind @ [TAB]) @ '',\<newline>'' @
     (case iv_Default a of
        None \<Rightarrow> []
      | Some d \<Rightarrow> ind @ TAB # ''DefaultValue: '' @ text_of (printVal (defType d)) (ind @ [TAB]) @ '',\<newline>'') @
     text_of (printDescr_if (iv_Doc a) descr) ind @
     ind @ ''},\<newline>''
   \<and> text_of (generateObject_args descr [a]) ind =
     ind @ DQ # Name (iv_Name a) @ ''\": &graphql.ArgumentConfig{\<newline>'' @
     ind @ TAB # ''Type: '' @ text_of (printType (argType (iv_Type a))) (ind @ [TAB]) @ '',\<newline>'' @
     (case iv_Default a of
        None \<Rightarrow> []
      | Some d \<Rightarrow> ind @ TAB # ''DefaultValue: '' @ text_of (printVal (defType d)) (ind @ [TAB]) @ '',\<newline>'') @
     text_of (printDescr_if (iv_Doc a) descr) (ind @ [TAB]) @
     ind @ ''},\<newline>''
   \<and> text_of (generateInterface_args descr [a]) ind =
     ind @ DQ # Name (iv_Name a) @ ''\": &graphql.ArgumentConfig{\<newline>'' @
     ind @ TAB # ''Type: '' @ text_of (printType (argType (iv_Type a))) (ind @ [TAB]) @
     (case iv_Default a of
        None \<Rightarrow> []
      | Some d \<Rightarrow> NL # ind @ TAB # ''DefaultValue: '' @ text_of (printVal (defType d)) (ind @ [TAB]) @ '',\<newline>'') @
     text_of (printDescr_if (iv_Doc a) descr) (ind @ [TAB]) @
     ind @ ''},\<newline>''
   \<and> text_of (generateDirective_args descr [a]) ind =
     ind @ DQ # Name (iv_Name a) @ ''\": &graphql.ArgumentConfig{\<newline>'' @
     ind @ TAB # ''Type: '' @ text_of (printType (argType (iv_Type a))) (ind @ [TAB]) @ '',\<newline>'' @
     (case iv_Default a of
        None \<Rightarrow> []
      | Some d \<Rightarrow> ind @ TAB # ''DefaultValue: '' @ text_of (printVal (defType d)) (ind @ [TAB]) @ '',\<newline>'') @
     text_of (printDescr_if (iv_Doc a) descr) (ind @ [TAB]) @
     ind @ ''},\<newline>''
   \<and> text_of (generateObject_interfaces intfs) ind =
     concat (map (\<lambda>intf. ind @ Name intf @ ''Type,'' @ [NL]) intfs)
   \<and> text_of (generateUnion_members mems) ind =
     concat (map (\<lambda>mem. ind @ Name mem @ ''Type,'' @ [NL]) mems)
   \<and> text_of (generateDirective_locs locs) ind =
     concat (map (\<lambda>loc. ind @ DQ # Loc loc @ ''\",'' @ [NL]) locs)
   \<and> text_of (printDescr_if dg descr) ind =
     (case dg of
        None \<Rightarrow> []
      | Some d \<Rightarrow>
          if descr then
            (if 0 < length (Text d) then
               ind @ ''Description: \"'' @ take (length (Text d) - 1) (Text d) @ ''\",''
             else []) @ [NL]
          else [])
   \<and> Generate (Unmarshal_descriptions True) sink_accepting doc_example ''{\"descriptions\": true}'' g =
     Return (None, \<lparr>Buffer = [], indent = []\<rparr>, [Opened ''example.go'', Written (''package main\<newline>'' @
     ''\<newline>'' @
     ''import \"github.com/graphql-go/graphql\"\<newline>'' @
     ''\<newline>'' @
     ''var Schema graphql.Schema\<newline>'' @
     ''\<newline>'' @
     ''var QueryType = graphql.NewObject(graphql.ObjectConfig{\<newline>'' @
     TAB # ''Name: \"Query\",\<newline>'' @
     TAB # ''Fields: graphql.Fields{\<newline>'' @
     TAB # TAB # ''\"hello\": &graphql.Field{\<newline>'' @
     TAB # TAB # TAB # ''Type: graphql.String,\<newline>'' @
     TAB # TAB # TAB # ''Resolve: func(p graphql.ResolveParams) (interface{}, error) { return nil, nil }, // TODO\<newline>'' @
     TAB # TAB # ''},\<newline>'' @
     TAB # ''},\<newline>'' @
     TAB # ''Description: \"Query represents the queries this example provides.\",\<newline>'' @
     ''})\<newline>'' @
     ''\<newline>'' @
     ''func init() {\<newline>'' @
     TAB # ''var err error\<newline>'' @
     TAB # ''Schema, err = graphql.NewSchema(graphql.SchemaConfig{\<newline>'' @
     TAB # TAB # ''Query: QueryType,\<newline>'' @
     TAB # ''})\<newline>'' @
     TAB # ''if err != nil {\<newline>'' @
     TAB # TAB # ''panic(err)\<newline>'' @
     TAB # ''}\<newline>'' @
     ''}\<newline>''), Closed])"
proof -
  have state: "Generate Unmarshal gCtx doc opts g = Generate Unmarshal gCtx doc opts g'"
    by (simp add: Generate_def Reset_eq)
  show ?thesis
    by (intro conjI Reset_eq state
        Generate_ordered Generate_types_order Generate_types_single Generate_schema_block
        Generate_rootOps_step Generate_output_accepting generateScalar_lists
        generateObject_lists generateInterface_lists generateUnion_lists generateEnum_lists
        generateInput_lists generateDirective_lists generateObject_fields_order
        generateInterface_fields_order generateEnum_values_order generateInput_fields_order
        generateObject_args_order generateInterface_args_order generateDirective_args_order
        generateObject_fields_single generateInterface_fields_single
        generateEnum_values_single generateInput_fields_single generateObject_args_single
        generateInterface_args_single generateDirective_args_single
        generateObject_interfaces_concat generateUnion_members_concat
        generateDirective_locs_concat printDescr_if_explicit Generate_example)
qed

subsection \<open>Where the code departs from the specification\<close>

text \<open>
  C1. For a union with the single member \<^verbatim>\<open>Echo\<close> the \<^verbatim>\<open>Types\<close> line is inline
  but holds only the suffix: the member's name is missing between the braces.
\<close>

theorem generateUnion_single_member:
  "Buffer (generateUnion ''SearchResult'' False None \<lparr>Members = [Ident ''Echo'']\<rparr> new_Generator) =
   ''NewUnion(graphql.UnionConfig{\<newline>'' @
   TAB # ''Name: \"SearchResult\",\<newline>'' @
   TAB # ''Types: []*graphql.Object{ Type },\<newline>'' @
   TAB # ''ResolveType: func(p graphql.ResolveParams) *graphql.Object { return nil }, // TODO\<newline>'' @
   ''})\<newline>''"
  by (simp add: generateUnion_def new_Generator_def prims)

text \<open>
  C3. On the field \<^verbatim>\<open>echo(text: String): Echo\<close> the interface emitter writes the
  type of the argument without the comma and the line break that the object emitter
  writes after it, so the two texts differ in more than the \<^verbatim>\<open>Resolve\<close> line.
\<close>

theorem generateInterface_argument_text:
  "Buffer (generateInterface ''Node'' False None \<lparr>inter_Fields = [field_echo]\<rparr> new_Generator) =
   ''NewInterface(graphql.InterfaceConfig{\<newline>'' @
   TAB # ''Name: \"Node\",\<newline>'' @
   TAB # ''Fields: graphql.Fields{\<newline>'' @
   TAB # TAB # ''\"echo\": &graphql.Field{\<newline>'' @
   TAB # TAB # TAB # ''Type: EchoType,\<newline>'' @
   TAB # TAB # TAB # ''Args: graphql.FieldConfigArgument{\<newline>'' @
   TAB # TAB # TAB # TAB # ''\"text\": &graphql.ArgumentConfig{\<newline>'' @
   TAB # TAB # TAB # TAB # TAB # ''Type: graphql.String'' @ TAB # TAB # TAB # TAB # ''},\<newline>'' @
   TAB # TAB # TAB # ''},\<newline>'' @
   TAB # TAB # ''},\<newline>'' @
   TAB # ''},\<newline>'' @
   ''})\<newline>''
   \<and> Buffer (generateObject ''Node'' False None \<lparr>Interfaces = [], obj_Fields = [field_echo]\<rparr> new_Generator) =
   ''NewObject(graphql.ObjectConfig{\<newline>'' @
   TAB # ''Name: \"Node\",\<newline>'' @
   TAB # ''Fields: graphql.Fields{\<newline>'' @
   TAB # TAB # ''\"echo\": &graphql.Field{\<newline>'' @
   TAB # TAB # TAB # ''Type: EchoType,\<newline>'' @
   TAB # TAB # TAB # ''Args: graphql.FieldConfigArgument{\<newline>'' @
   TAB # TAB # TAB # TAB # ''\"text\": &graphql.ArgumentConfig{\<newline>'' @
   TAB # TAB # TAB # TAB # TAB # ''Type: graphql.String,\<newline>'' @
   TAB # TAB # TAB # TAB # ''},\<newline>'' @
   TAB # TAB # TAB # ''},\<newline>'' @
   TAB # TAB # TAB # ''Resolve: func(p graphql.ResolveParams) (interface{}, error) { return nil, nil }, // TODO\<newline>'' @
   TAB # TAB # ''},\<newline>'' @
   TAB # ''},\<newline>'' @
   ''})\<newline>''"
  by (simp add: generateInterface_def generateObject_def field_echo_def new_Generator_def prims builtin_name_def)

text \<open>
  C4. Option resolution panics when the package name decoded from the invocation blob is
  empty (index 0 is out of range) or is the single quote character (the slice from 1 to 0
  is out of range).
\<close>

theorem getOptions_empty_package:
  "getOptions (Unmarshal_package []) doc_empty ''{\"package\": \"\"}'' = Panic
   \<and> getOptions (Unmarshal_package [DQ]) doc_empty (''{\"package\": \"'' @ [CHR 0x5C, DQ] @ ''\"}'') = Panic"
  by (simp add: getOptions_def doc_empty_def Unmarshal_package_def)

text \<open>
  The three outcomes of opening the sink: a file together with an error gives the wrapped
  error, after the file is closed and with the text still in the buffer; a failed write
  gives the wrapped error, with the bytes not taken still in the buffer; no file gives a
  panic, whatever the error.
\<close>

lemma Generate_output_Open_error:
  assumes "Open gCtx (take (length (doc_Name doc) - length (Ext (doc_Name doc))) (doc_Name doc) @ ''.go'')
             = (Some file, Some e)"
  shows "Generate_output gCtx doc g =
         Return (Some \<lparr>DocName = doc_Name doc, GenName = ''go'', Msg = e\<rparr>, g,
                 [Opened (take (length (doc_Name doc) - length (Ext (doc_Name doc))) (doc_Name doc) @ ''.go''),
                  Closed])"
  using assms by (simp add: Generate_output_def wrap_error_def)

lemma Generate_output_Write_error:
  assumes "Open gCtx (take (length (doc_Name doc) - length (Ext (doc_Name doc))) (doc_Name doc) @ ''.go'')
             = (Some file, None)"
    and "Buffer g \<noteq> []"
    and "wc_Write file (Buffer g) = (m, Some e)"
    and "m \<le> length (Buffer g)"
  shows "Generate_output gCtx doc g =
         Return (Some \<lparr>DocName = doc_Name doc, GenName = ''go'', Msg = e\<rparr>,
                 g\<lparr>Buffer := drop m (Buffer g)\<rparr>,
                 [Opened (take (length (doc_Name doc) - length (Ext (doc_Name doc))) (doc_Name doc) @ ''.go''),
                  Written (Buffer g), Closed])"
  using assms by (simp add: Generate_output_def WriteTo_def wrap_error_def)

lemma Generate_output_nil_file:
  assumes "Open gCtx (take (length (doc_Name doc) - length (Ext (doc_Name doc))) (doc_Name doc) @ ''.go'')
             = (None, err)"
  shows "Generate_output gCtx doc g = Panic"
  using assms by (simp add: Generate_output_def)

text \<open>
  C5. When the sink fails to open and hands back no file, Generate panics instead of
  returning the failure: \<^verbatim>\<open>Close\<close> is deferred on the nil file before the error is
  looked at.
\<close>

theorem Generate_open_fails:
  "Generate Unmarshal_invalid sink_open_fails doc_empty [] g = Panic"
  by (simp add: Generate_def getOptions_def doc_empty_def Generate_schema_def Generate_output_def sink_open_fails_def)

text \<open>
  C7. For a document whose last declaration is a type extension, the text handed to the
  sink ends with a blank line after the final emitted declaration; when the schema
  declaration is the last one, two blank lines stand between the final emitted
  declaration and the block that builds the schema.
\<close>

theorem Generate_skipped_last:
  "Generate Unmarshal_invalid sink_accepting doc_extension_last [] new_Generator =
   Return (None, \<lparr>Buffer = [], indent = []\<rparr>, [Opened ''test.go'', Written (''package main\<newline>'' @
   ''\<newline>'' @
   ''import \"github.com/graphql-go/graphql\"\<newline>'' @
   ''\<newline>'' @
   ''var VersionType = graphql.NewScalar(graphql.ScalarConfig{\<newline>'' @
   TAB # ''Name: \"Version\",\<newline>'' @
   TAB # ''Serialize: func(value interface{}) interface{} { return nil }, // TODO\<newline>'' @
   ''})\<newline>'' @
   ''\<newline>''), Closed])
   \<and> Generate Unmarshal_invalid sink_accepting doc_schema_last [] new_Generator =
   Return (None, \<lparr>Buffer = [], indent = []\<rparr>, [Opened ''test.go'', Written (''package main\<newline>'' @
   ''\<newline>'' @
   ''import \"github.com/graphql-go/graphql\"\<newline>'' @
   ''\<newline>'' @
   ''var Schema graphql.Schema\<newline>'' @
   ''\<newline>'' @
   ''var VersionType = graphql.NewScalar(graphql.ScalarConfig{\<newline>'' @
   TAB # ''Name: \"Version\",\<newline>'' @
   TAB # ''Serialize: func(value interface{}) interface{} { return nil }, // TODO\<newline>'' @
   ''})\<newline>'' @
   ''\<newline>'' @
   ''\<newline>'' @
   ''func init() {\<newline>'' @
   TAB # ''var err error\<newline>'' @
   TAB # ''Schema, err = graphql.NewSchema(graphql.SchemaConfig{\<newline>'' @
   TAB # TAB # ''Query: QueryType,\<newline>'' @
   TAB # ''})\<newline>'' @
   TAB # ''if err != nil {\<newline>'' @
   TAB # TAB # ''panic(err)\<newline>'' @
   TAB # ''}\<newline>'' @
   ''}\<newline>''), Closed])"
  unfolding Generate_def Generate_schema_def Generate_output_def getOptions_def WriteTo_def
    writeHeader_def Let_def
  by (simp add: generateScalar_def Let_def doc_extension_last_def doc_schema_last_def decl_Version_def decl_extension_def
      decl_schema_def sink_accepting_def Ext_def Reset_def new_Generator_def wrap_error_def wprims)

end
